theory Spec2Isabelle
  imports Complex_Main "HOL-Library.Sublist" "HOL-Library.AList"
begin

section \<open>Python strings\<close>

text \<open>
  A Python \<open>str\<close> is modelled as a \<open>string\<close>: a character stands for the code point
  of its number, so the texts of the model are those of code points below 256.
  \<open>str.lower()\<close> changes 56 of these characters: the letters A to Z and the capital
  letters U+00C0 to U+00DE other than U+00D7, each to the character 32 places on.
  \<open>str.strip()\<close> removes 12 of them: U+0009 to U+000D, U+001C to U+0020, U+0085 and
  U+00A0.
\<close>

definition ascii_uppercase :: string where
  "ascii_uppercase = ''ABCDEFGHIJKLMNOPQRSTUVWXYZ''"

definition ascii_lowercase :: string where
  "ascii_lowercase = ''abcdefghijklmnopqrstuvwxyz''"

definition latin1_uppercase :: string where
  "latin1_uppercase =
     [CHR 0xC0, CHR 0xC1, CHR 0xC2, CHR 0xC3, CHR 0xC4, CHR 0xC5, CHR 0xC6, CHR 0xC7,
      CHR 0xC8, CHR 0xC9, CHR 0xCA, CHR 0xCB, CHR 0xCC, CHR 0xCD, CHR 0xCE, CHR 0xCF,
      CHR 0xD0, CHR 0xD1, CHR 0xD2, CHR 0xD3, CHR 0xD4, CHR 0xD5, CHR 0xD6,
      CHR 0xD8, CHR 0xD9, CHR 0xDA, CHR 0xDB, CHR 0xDC, CHR 0xDD, CHR 0xDE]"

definition latin1_lowercase :: string where
  "latin1_lowercase =
     [CHR 0xE0, CHR 0xE1, CHR 0xE2, CHR 0xE3, CHR 0xE4, CHR 0xE5, CHR 0xE6, CHR 0xE7,
      CHR 0xE8, CHR 0xE9, CHR 0xEA, CHR 0xEB, CHR 0xEC, CHR 0xED, CHR 0xEE, CHR 0xEF,
      CHR 0xF0, CHR 0xF1, CHR 0xF2, CHR 0xF3, CHR 0xF4, CHR 0xF5, CHR 0xF6,
      CHR 0xF8, CHR 0xF9, CHR 0xFA, CHR 0xFB, CHR 0xFC, CHR 0xFD, CHR 0xFE]"

definition lower_char :: "char \<Rightarrow> char" where
  "lower_char c =
     (case map_of (zip (ascii_uppercase @ latin1_uppercase) (ascii_lowercase @ latin1_lowercase)) c of
        Some d \<Rightarrow> d
      | None \<Rightarrow> c)"

definition lower :: "string \<Rightarrow> string" where
  "lower s = map lower_char s"

definition is_space :: "char \<Rightarrow> bool" where
  "is_space c \<longleftrightarrow>
     c \<in> set [CHR 0x09, CHR 0x0A, CHR 0x0B, CHR 0x0C, CHR 0x0D,
              CHR 0x1C, CHR 0x1D, CHR 0x1E, CHR 0x1F, CHR 0x20, CHR 0x85, CHR 0xA0]"

definition strip :: "string \<Rightarrow> string" where
  "strip s = rev (dropWhile is_space (rev (dropWhile is_space s)))"

text \<open>\<open>contains needle hay\<close> is Python's \<open>needle in hay\<close> on two strings.\<close>

fun contains :: "string \<Rightarrow> string \<Rightarrow> bool" where
  "contains needle [] = (needle = [])"
| "contains needle (c # cs) = (prefix needle (c # cs) \<or> contains needle cs)"

section \<open>Cells, columns and data frames\<close>

text \<open>
  A number of a numeric column, NaN apart: a finite int64 or float64 value, or one of
  the two infinities of float64. The finite values are rationals and the arithmetic on
  them is exact: the rounding of float64 arithmetic is not modelled. The order is that
  of the numbers, with \<open>NegInf\<close> below and \<open>PosInf\<close> above all finite values.
\<close>

datatype float64 = Fin rat | PosInf | NegInf

instantiation float64 :: linorder
begin

definition less_eq_float64 :: "float64 \<Rightarrow> float64 \<Rightarrow> bool" where
  "less_eq_float64 x y =
     (case x of
        NegInf \<Rightarrow> True
      | Fin a \<Rightarrow> (case y of NegInf \<Rightarrow> False | Fin b \<Rightarrow> a \<le> b | PosInf \<Rightarrow> True)
      | PosInf \<Rightarrow> (case y of PosInf \<Rightarrow> True | _ \<Rightarrow> False))"

definition less_float64 :: "float64 \<Rightarrow> float64 \<Rightarrow> bool" where
  "less_float64 x y = (x \<le> y \<and> \<not> y \<le> (x :: float64))"

instance
  by standard (auto simp add: less_eq_float64_def less_float64_def split: float64.splits)

end

text \<open>
  A cell of a pandas column: \<open>NA\<close> stands for NaN and None (what \<open>pd.isna\<close>
  accepts), \<open>Float\<close> for a number, \<open>Str\<close> for a Python string and \<open>Bool\<close> for
  True and False. \<open>Num r\<close> is the cell of the finite number \<open>r\<close>.
\<close>

datatype cell = NA | Str string | Float float64 | Bool bool

abbreviation Num :: "rat \<Rightarrow> cell" where
  "Num r \<equiv> Float (Fin r)"

text \<open>
  Two conversions are pandas' and Python's own and are taken as parameters:
  \<open>parse_number\<close> is the numeric parser that \<open>pd.to_numeric\<close> applies to a string
  (None where \<open>errors="coerce"\<close> gives NaN), \<open>repr_number\<close> is \<open>str()\<close> of a
  number.
\<close>

record pylib =
  parse_number :: "string \<Rightarrow> float64 option"
  repr_number :: "float64 \<Rightarrow> string"

definition isna :: "cell \<Rightarrow> bool" where
  "isna c \<longleftrightarrow> c = NA"

definition py_str :: "pylib \<Rightarrow> cell \<Rightarrow> string" where
  "py_str L c =
     (case c of
        Str s \<Rightarrow> s
      | Float x \<Rightarrow> repr_number L x
      | Bool b \<Rightarrow> (if b then ''True'' else ''False'')
      | NA \<Rightarrow> ''nan'')"

text \<open>\<open>pd.to_numeric(..., errors="coerce")\<close> on one cell; None is NaN.\<close>

definition to_numeric :: "pylib \<Rightarrow> cell \<Rightarrow> float64 option" where
  "to_numeric L c =
     (case c of
        NA \<Rightarrow> None
      | Float x \<Rightarrow> Some x
      | Bool b \<Rightarrow> Some (Fin (if b then 1 else 0))
      | Str s \<Rightarrow> parse_number L s)"

text \<open>The cell of a number or NaN: \<open>float_cell\<close>; of a finite number or NaN: \<open>num_cell\<close>.\<close>

definition float_cell :: "float64 option \<Rightarrow> cell" where
  "float_cell v = (case v of None \<Rightarrow> NA | Some x \<Rightarrow> Float x)"

definition num_cell :: "rat option \<Rightarrow> cell" where
  "num_cell v = (case v of None \<Rightarrow> NA | Some r \<Rightarrow> Num r)"

text \<open>
  A data frame is the ordered list of its named columns. \<open>df[c]\<close> raises KeyError
  for an absent column; \<open>df[c] = v\<close> replaces the column in place or appends it.
\<close>

type_synonym dataframe = "(string \<times> cell list) list"

datatype error =
    FileNotFoundError string
  | MissingExpectedColumns "string list"
  | MissingLikertColumn string
  | LikertBelow string float64
  | LikertAbove string float64
  | CannotSafelyCast
  | OverflowError
  | ZeroDivisionError
  | ParserError string
  | KeyError string
  | AssertionError string
  | LibraryError string

definition bind_result :: "error + 'a \<Rightarrow> ('a \<Rightarrow> error + 'b) \<Rightarrow> error + 'b" where
  "bind_result r f = (case r of Inl e \<Rightarrow> Inl e | Inr x \<Rightarrow> f x)"

definition columns :: "dataframe \<Rightarrow> string list" where
  "columns df = map fst df"

definition getitem :: "dataframe \<Rightarrow> string \<Rightarrow> error + cell list" where
  "getitem df c = (case map_of df c of None \<Rightarrow> Inl (KeyError c) | Some v \<Rightarrow> Inr v)"

definition setitem :: "dataframe \<Rightarrow> string \<Rightarrow> cell list \<Rightarrow> dataframe" where
  "setitem df c v = AList.update c v df"

definition drop_column :: "dataframe \<Rightarrow> string \<Rightarrow> dataframe" where
  "drop_column df c = AList.delete c df"

section \<open>Configuration of the ETL pipeline (src/etl.py)\<close>

definition COLUMN_MAPPING :: "(string \<times> string) list" where
  "COLUMN_MAPPING =
    [(''Timestamp'', ''timestamp''),
     (''1. What is your age?'', ''age''),
     (''2. Gender'', ''gender_raw''),
     (''3. Relationship Status'', ''relationship_status''),
     (''4. Occupation Status'', ''occupation_status''),
     (''5. What type of organizations are you affiliated with?'', ''org_affiliations_raw''),
     (''6. Do you use social media?'', ''uses_social_media''),
     (''7. What social media platforms do you commonly use?'', ''platforms_raw''),
     (''8. What is the average time you spend on social media every day?'', ''daily_time_band''),
     (''9. How often do you find yourself using Social media without a specific purpose?'',
        ''purposeless_use''),
     (''10. How often do you get distracted by Social media when you are busy doing something?'',
        ''distracted_when_busy''),
     (''11. Do you feel restless if you haven't used Social media in a while?'',
        ''restless_without_sm''),
     (''12. On a scale of 1 to 5, how easily distracted are you?'', ''easily_distracted''),
     (''13. On a scale of 1 to 5, how much are you bothered by worries?'', ''worries_bother''),
     (''14. Do you find it difficult to concentrate on things?'', ''difficulty_concentrating''),
     (''15. On a scale of 1-5, how often do you compare yourself to other successful people through the use of social media?'',
        ''compare_to_successful''),
     (''16. Following the previous question, how do you feel about these comparisons, generally speaking?'',
        ''comparison_feelings''),
     (''17. How often do you look to seek validation from features of social media?'',
        ''seek_validation''),
     (''18. How often do you feel depressed or down?'', ''low_mood_freq''),
     (''19. On a scale of 1 to 5, how frequently does your interest in daily activities fluctuate?'',
        ''interest_fluctuation''),
     (''20. On a scale of 1 to 5, how often do you face issues regarding sleep?'', ''sleep_issues'')]"

definition LIKERT_COLUMNS :: "string list" where
  "LIKERT_COLUMNS =
    [''purposeless_use'', ''distracted_when_busy'', ''restless_without_sm'',
     ''easily_distracted'', ''worries_bother'', ''difficulty_concentrating'',
     ''compare_to_successful'', ''comparison_feelings'', ''seek_validation'',
     ''low_mood_freq'', ''interest_fluctuation'', ''sleep_issues'']"

definition PLATFORMS :: "string list" where
  "PLATFORMS =
    [''Facebook'', ''Twitter'', ''Instagram'', ''YouTube'', ''Snapchat'',
     ''Discord'', ''Reddit'', ''Pinterest'', ''TikTok'']"

definition AFFILIATIONS :: "(string \<times> string list) list" where
  "AFFILIATIONS =
    [(''university'', [''University'']),
     (''school'', [''School'']),
     (''company'', [''Company'']),
     (''private'', [''Private'']),
     (''government'', [''Government'', ''Goverment'']),
     (''na'', [''N/A'', ''NA'', ''''])]"

definition TIME_BAND_MIDPOINTS :: "(string \<times> rat) list" where
  "TIME_BAND_MIDPOINTS =
    [(''Less than an Hour'', 1/2),
     (''Between 1 and 2 hours'', 3/2),
     (''Between 2 and 3 hours'', 5/2),
     (''Between 3 and 4 hours'', 7/2),
     (''Between 4 and 5 hours'', 9/2),
     (''More than 5 hours'', 11/2)]"

definition GENDER_NORMALISATION :: "(string \<times> string) list" where
  "GENDER_NORMALISATION =
    [(''male'', ''Male''), (''m'', ''Male''), (''man'', ''Male''),
     (''female'', ''Female''), (''f'', ''Female''), (''woman'', ''Female''),
     (''nonbinary'', ''Non-binary''), (''non-binary'', ''Non-binary''),
     (''non binary'', ''Non-binary''), (''nb'', ''Non-binary''), (''enby'', ''Non-binary''),
     (''genderqueer'', ''Non-binary''), (''genderfluid'', ''Non-binary''),
     (''agender'', ''Non-binary''),
     (''trans'', ''Trans''), (''transgender'', ''Trans''), (''trans male'', ''Trans''),
     (''trans female'', ''Trans''), (''trans man'', ''Trans''), (''trans woman'', ''Trans''),
     (''unsure'', ''Unsure''), (''questioning'', ''Unsure''), (''unknown'', ''Unsure''),
     (''prefer not to say'', ''Prefer not to say''),
     (''rather not say'', ''Prefer not to say''),
     (''decline'', ''Prefer not to say'')]"

definition GENDER_GROUPING :: "(string \<times> string) list" where
  "GENDER_GROUPING =
    [(''Male'', ''Male''), (''Female'', ''Female''),
     (''Non-binary'', ''Non-binary & Other''), (''Trans'', ''Non-binary & Other''),
     (''Unsure'', ''Non-binary & Other''), (''Other'', ''Non-binary & Other''),
     (''Prefer not to say'', ''Prefer not to say'')]"

text \<open>The closed set of values of \<open>gender_clean\<close> (the keys of \<open>GENDER_GROUPING\<close>).\<close>

definition gender_categories :: "string list" where
  "gender_categories = map fst GENDER_GROUPING"

section \<open>The ETL functions\<close>

subsection \<open>\<open>rename_columns\<close> and \<open>drop_timestamp\<close>\<close>

definition rename_columns :: "dataframe \<Rightarrow> error + dataframe" where
  "rename_columns df =
     (let missing_cols = filter (\<lambda>k. k \<notin> set (columns df)) (map fst COLUMN_MAPPING)
      in if missing_cols \<noteq> [] then Inl (MissingExpectedColumns missing_cols)
         else Inr (map (\<lambda>(k, v). (case map_of COLUMN_MAPPING k of Some k' \<Rightarrow> k' | None \<Rightarrow> k, v)) df))"

definition drop_timestamp :: "dataframe \<Rightarrow> dataframe" where
  "drop_timestamp df =
     (if ''timestamp'' \<in> set (columns df) then drop_column df ''timestamp'' else df)"

subsection \<open>\<open>clean_age\<close>\<close>

text \<open>
  \<open>int(age)\<close> truncates towards zero and raises OverflowError on an infinity;
  \<open>Series.round()\<close> rounds halves to even and leaves an infinity as it is.
\<close>

definition py_int :: "rat \<Rightarrow> int" where
  "py_int r = (if 0 \<le> r then \<lfloor>r\<rfloor> else \<lceil>r\<rceil>)"

definition round_half_even :: "rat \<Rightarrow> int" where
  "round_half_even r =
     (let f = \<lfloor>r\<rfloor>; d = r - of_int f
      in if d < 1/2 then f else if 1/2 < d then f + 1 else if even f then f else f + 1)"

definition series_round :: "float64 \<Rightarrow> float64" where
  "series_round x = (case x of Fin r \<Rightarrow> Fin (of_int (round_half_even r)) | _ \<Rightarrow> x)"

definition get_age_band :: "float64 option \<Rightarrow> error + string" where
  "get_age_band age =
     (case age of
        None \<Rightarrow> Inr ''Unknown''
      | Some (Fin r) \<Rightarrow>
          (let a = py_int r
           in if a < 18 then Inr ''<18''
              else if a \<le> 24 then Inr ''18-24''
              else if a \<le> 34 then Inr ''25-34''
              else if a \<le> 44 then Inr ''35-44''
              else Inr ''45+'')
      | Some _ \<Rightarrow> Inl OverflowError)"

text \<open>\<open>Series.apply(f)\<close> calls \<open>f\<close> on the values in order; the first raise ends it.\<close>

fun series_apply :: "('a \<Rightarrow> error + 'b) \<Rightarrow> 'a list \<Rightarrow> error + 'b list" where
  "series_apply f [] = Inr []"
| "series_apply f (x # xs) =
     bind_result (f x) (\<lambda>y. bind_result (series_apply f xs) (\<lambda>ys. Inr (y # ys)))"

text \<open>
  The cast of a numeric column to the nullable integer type \<open>Int64\<close>, by
  \<open>pd.array(values, dtype="Int64")\<close> and by \<open>astype("Int64")\<close>: NaN becomes the missing
  value; pandas raises TypeError ("cannot safely cast non-equivalent float64 to int64")
  unless every other value is a whole number of the int64 range. \<open>present\<close> are the
  values of a column that are not NaN.
\<close>

definition present :: "'a option list \<Rightarrow> 'a list" where
  "present vals = concat (map (\<lambda>v. case v of None \<Rightarrow> [] | Some r \<Rightarrow> [r]) vals)"

definition is_whole :: "rat \<Rightarrow> bool" where
  "is_whole r \<longleftrightarrow> of_int \<lfloor>r\<rfloor> = r"

definition is_int64 :: "float64 \<Rightarrow> bool" where
  "is_int64 x =
     (case x of Fin r \<Rightarrow> is_whole r \<and> - (2 ^ 63) \<le> r \<and> r < 2 ^ 63 | _ \<Rightarrow> False)"

definition to_Int64 :: "float64 option list \<Rightarrow> error + cell list" where
  "to_Int64 vals =
     (if list_all is_int64 (present vals) then Inr (map float_cell vals)
      else Inl CannotSafelyCast)"

definition clean_age :: "pylib \<Rightarrow> dataframe \<Rightarrow> error + dataframe" where
  "clean_age L df =
     bind_result (getitem df ''age'') (\<lambda>raw.
       let age = map (to_numeric L) raw;
           df1 = setitem df ''age'' (map float_cell age)
       in bind_result (series_apply get_age_band age) (\<lambda>bands.
            let df2 = setitem df1 ''age_band'' (map Str bands)
            in bind_result (to_Int64 (map (map_option series_round) age)) (\<lambda>ages.
                 Inr (setitem df2 ''age'' ages))))"

text \<open>
  A property of a raw age column, for stating what \<open>clean_age\<close> does: every value that
  is read as a number is finite and rounds to a whole number of magnitude below
  \<open>2 ^ 63\<close>.
\<close>

definition ages_castable :: "pylib \<Rightarrow> cell list \<Rightarrow> bool" where
  "ages_castable L col \<longleftrightarrow>
     list_all (\<lambda>x. case x of Fin r \<Rightarrow> \<bar>round_half_even r\<bar> < 2 ^ 63 | _ \<Rightarrow> False)
       (present (map (to_numeric L) col))"

subsection \<open>\<open>clean_gender\<close>\<close>

definition normalise_gender :: "pylib \<Rightarrow> cell \<Rightarrow> string" where
  "normalise_gender L val =
     (if isna val then ''Prefer not to say''
      else (let val_clean = lower (strip (py_str L val))
            in case map_of GENDER_NORMALISATION val_clean of
                 Some g \<Rightarrow> g
               | None \<Rightarrow> ''Other''))"

definition clean_gender :: "pylib \<Rightarrow> dataframe \<Rightarrow> error + dataframe" where
  "clean_gender L df =
     bind_result (getitem df ''gender_raw'') (\<lambda>raw.
       let gender_clean = map (normalise_gender L) raw;
           df1 = setitem df ''gender_clean'' (map Str gender_clean);
           df2 = setitem df1 ''gender_grouped''
                   (map (\<lambda>g. case map_of GENDER_GROUPING g of Some x \<Rightarrow> Str x | None \<Rightarrow> NA)
                        gender_clean)
       in Inr (drop_column df2 ''gender_raw''))"

subsection \<open>\<open>clean_yes_no\<close>\<close>

definition to_bool :: "pylib \<Rightarrow> cell \<Rightarrow> bool option" where
  "to_bool L val =
     (if isna val then None
      else (let val_str = lower (strip (py_str L val))
            in if val_str \<in> set [''yes'', ''y'', ''true'', ''1''] then Some True
               else if val_str \<in> set [''no'', ''n'', ''false'', ''0''] then Some False
               else None))"

definition bool_cell :: "bool option \<Rightarrow> cell" where
  "bool_cell v = (case v of None \<Rightarrow> NA | Some b \<Rightarrow> Bool b)"

definition clean_yes_no :: "pylib \<Rightarrow> dataframe \<Rightarrow> error + dataframe" where
  "clean_yes_no L df =
     bind_result (getitem df ''uses_social_media'') (\<lambda>raw.
       Inr (setitem df ''uses_social_media'' (map (\<lambda>v. bool_cell (to_bool L v)) raw)))"

subsection \<open>\<open>parse_platforms\<close>\<close>

text \<open>A \<open>for\<close> loop over a list whose body may raise.\<close>

fun for_each :: "('a \<Rightarrow> 's \<Rightarrow> error + 's) \<Rightarrow> 'a list \<Rightarrow> 's \<Rightarrow> error + 's" where
  "for_each body [] s = Inr s"
| "for_each body (x # xs) s = bind_result (body x s) (for_each body xs)"

fun getitems :: "dataframe \<Rightarrow> string list \<Rightarrow> error + cell list list" where
  "getitems df [] = Inr []"
| "getitems df (c # cs) =
     bind_result (getitem df c) (\<lambda>v. bind_result (getitems df cs) (\<lambda>vs. Inr (v # vs)))"

definition has_platform :: "pylib \<Rightarrow> string \<Rightarrow> cell \<Rightarrow> nat" where
  "has_platform L p val =
     (if isna val then 0
      else if contains (lower p) (lower (py_str L val)) then 1 else 0)"

definition platform_col :: "string \<Rightarrow> string" where
  "platform_col p = ''platform_'' @ lower p"

text \<open>
  \<open>DataFrame.sum(axis=1)\<close> over numeric columns of \<open>n\<close> rows: missing cells are
  skipped. \<open>cell_value\<close> is the number in a cell of a numeric column; a cell without a
  number counts as 0.
\<close>

definition cell_value :: "cell \<Rightarrow> rat" where
  "cell_value c = (case c of Float (Fin r) \<Rightarrow> r | Bool b \<Rightarrow> (if b then 1 else 0) | _ \<Rightarrow> 0)"

definition sum_axis1 :: "nat \<Rightarrow> cell list list \<Rightarrow> cell list" where
  "sum_axis1 n cols =
     map Num (foldr (\<lambda>col acc. map2 (\<lambda>c a. cell_value c + a) col acc) cols (replicate n 0))"

definition nrows :: "dataframe \<Rightarrow> nat" where
  "nrows df = (case df of [] \<Rightarrow> 0 | (k, v) # rest \<Rightarrow> length v)"

definition parse_platforms :: "pylib \<Rightarrow> dataframe \<Rightarrow> error + dataframe" where
  "parse_platforms L df =
     bind_result
       (for_each (\<lambda>platform d.
            bind_result (getitem d ''platforms_raw'') (\<lambda>raw.
              Inr (setitem d (platform_col platform)
                     (map (\<lambda>v. Num (of_nat (has_platform L platform v))) raw))))
          PLATFORMS df)
       (\<lambda>d. bind_result (getitems d (map platform_col PLATFORMS)) (\<lambda>cols.
              Inr (setitem d ''platform_count'' (sum_axis1 (nrows d) cols))))"

subsection \<open>\<open>parse_affiliations\<close>\<close>

fun matches_any :: "string list \<Rightarrow> string \<Rightarrow> nat" where
  "matches_any [] val_str = 0"
| "matches_any (v # vs) val_str =
     (if contains (lower v) (lower val_str) then 1 else matches_any vs val_str)"

definition has_affiliation :: "pylib \<Rightarrow> string list \<Rightarrow> cell \<Rightarrow> nat" where
  "has_affiliation L values val =
     (if isna val then (if [] \<in> set values then 1 else 0)
      else matches_any values (strip (py_str L val)))"

definition affil_col :: "string \<Rightarrow> string" where
  "affil_col affil_key = ''affil_'' @ affil_key"

definition parse_affiliations :: "pylib \<Rightarrow> dataframe \<Rightarrow> error + dataframe" where
  "parse_affiliations L df =
     for_each (\<lambda>(affil_key, affil_values) d.
         bind_result (getitem d ''org_affiliations_raw'') (\<lambda>raw.
           Inr (setitem d (affil_col affil_key)
                  (map (\<lambda>v. Num (of_nat (has_affiliation L affil_values v))) raw))))
       AFFILIATIONS df"

subsection \<open>\<open>create_time_midpoint\<close>\<close>

text \<open>
  What the pipeline prints is kept as a list of messages; only the warnings are
  modelled, the informational lines are left out.
\<close>

datatype message = UnmappedTimeBands "cell list"

text \<open>\<open>Series.map(TIME_BAND_MIDPOINTS)\<close> on one cell: a key that is absent gives NaN.\<close>

definition time_band_midpoint :: "cell \<Rightarrow> rat option" where
  "time_band_midpoint c = (case c of Str s \<Rightarrow> map_of TIME_BAND_MIDPOINTS s | _ \<Rightarrow> None)"

text \<open>\<open>Series.unique()\<close>: the distinct values in order of first appearance.\<close>

definition unique :: "'a list \<Rightarrow> 'a list" where
  "unique xs = rev (remdups (rev xs))"

definition create_time_midpoint :: "dataframe \<Rightarrow> error + dataframe \<times> message list" where
  "create_time_midpoint df =
     bind_result (getitem df ''daily_time_band'') (\<lambda>band.
       let df1 = setitem df ''daily_hours_midpoint''
                   (map (\<lambda>c. num_cell (time_band_midpoint c)) band)
       in bind_result (getitem df1 ''daily_hours_midpoint'') (\<lambda>mid.
          bind_result (getitem df1 ''daily_time_band'') (\<lambda>band1.
            let unmapped = unique (map snd (filter (\<lambda>(m, b). isna m \<and> \<not> isna b) (zip mid band1)))
            in Inr (df1, if 0 < length unmapped then [UnmappedTimeBands unmapped] else []))))"

subsection \<open>\<open>validate_likert_scales\<close>\<close>

text \<open>
  \<open>min()\<close> and \<open>max()\<close> skip NaN, so they are the least and the greatest of the
  \<open>present\<close> values, and NaN when there is none; a comparison with NaN is false.
\<close>

definition validate_likert_column :: "pylib \<Rightarrow> string \<Rightarrow> dataframe \<Rightarrow> error + dataframe" where
  "validate_likert_column L col df =
     (if col \<notin> set (columns df) then Inl (MissingLikertColumn col)
      else bind_result (getitem df col) (\<lambda>raw.
        let vals = map (to_numeric L) raw; ps = present vals
        in if ps \<noteq> [] \<and> Min (set ps) < Fin 1 then Inl (LikertBelow col (Min (set ps)))
           else if ps \<noteq> [] \<and> Fin 5 < Max (set ps) then Inl (LikertAbove col (Max (set ps)))
           else bind_result (to_Int64 vals) (\<lambda>v. Inr (setitem df col v))))"

definition validate_likert_scales :: "pylib \<Rightarrow> dataframe \<Rightarrow> error + dataframe" where
  "validate_likert_scales L df = for_each (validate_likert_column L) LIKERT_COLUMNS df"

text \<open>
  Two properties of a raw Likert column, for stating what the validation does: some
  present value lies outside 1 to 5; every present value is a whole number from 1 to 5.
\<close>

definition out_of_range :: "pylib \<Rightarrow> cell list \<Rightarrow> bool" where
  "out_of_range L col \<longleftrightarrow>
     list_ex (\<lambda>v. v < Fin 1 \<or> Fin 5 < v) (present (map (to_numeric L) col))"

definition is_likert :: "float64 \<Rightarrow> bool" where
  "is_likert v = (case v of Fin r \<Rightarrow> 1 \<le> r \<and> r \<le> 5 \<and> is_whole r | _ \<Rightarrow> False)"

definition whole_in_range :: "pylib \<Rightarrow> cell list \<Rightarrow> bool" where
  "whole_in_range L col \<longleftrightarrow> list_all is_likert (present (map (to_numeric L) col))"

subsection \<open>\<open>create_analysis_flag\<close>\<close>

text \<open>Python's \<open>x == True\<close> on one cell (the number 1 equals True).\<close>

definition eq_True :: "cell \<Rightarrow> bool" where
  "eq_True c \<longleftrightarrow> c = Bool True \<or> c = Num 1"

definition create_analysis_flag :: "dataframe \<Rightarrow> error + dataframe" where
  "create_analysis_flag df =
     bind_result (getitem df ''uses_social_media'') (\<lambda>u.
       Inr (setitem df ''include_in_analysis'' (map (\<lambda>c. Bool (eq_True c)) u)))"

subsection \<open>\<open>reorder_columns\<close>\<close>

definition ordered_cols :: "string list" where
  "ordered_cols =
     [''age'', ''age_band'', ''gender_clean'', ''gender_grouped'']
     @ [''relationship_status'', ''occupation_status'']
     @ [''uses_social_media'', ''daily_time_band'', ''daily_hours_midpoint'']
     @ (map platform_col PLATFORMS @ [''platform_count''])
     @ map (\<lambda>(k, vs). affil_col k) AFFILIATIONS
     @ [''purposeless_use'', ''distracted_when_busy'', ''restless_without_sm'',
        ''easily_distracted'', ''worries_bother'', ''difficulty_concentrating'']
     @ [''compare_to_successful'', ''comparison_feelings'', ''seek_validation'',
        ''low_mood_freq'', ''interest_fluctuation'', ''sleep_issues'']
     @ [''platforms_raw'', ''org_affiliations_raw'']
     @ [''include_in_analysis'']"

definition reorder_columns :: "dataframe \<Rightarrow> dataframe" where
  "reorder_columns df =
     (let final_cols = filter (\<lambda>c. c \<in> set (columns df)) ordered_cols;
          remaining = filter (\<lambda>c. c \<notin> set final_cols) (columns df)
      in concat (map (\<lambda>c. filter (\<lambda>(k, v). k = c) df) (final_cols @ remaining)))"

subsection \<open>Files and \<open>run_etl\<close>\<close>

text \<open>
  The file system maps a path to the file there. A table file holds a data frame; the
  two Markdown reports are kept as the data they are generated from, their text is not
  modelled. Reading a report as a table is taken to fail. \<open>run_quality_checks\<close> only
  counts rows, columns, duplicates and missing cells for the report and prints them; it
  is left out, as are the informational lines that the steps print.

  \<open>generate_etl_report\<close> computes percentages of \<open>len(df_after)\<close> before it writes:
  on a table without rows this division raises ZeroDivisionError, after the table and
  the data dictionary have been written.
\<close>

datatype file_content =
    CsvFile dataframe
  | DataDictionary dataframe
  | EtlReport dataframe dataframe

record world =
  files :: "string \<rightharpoonup> file_content"
  printed :: "message list"

definition load_raw_data :: "world \<Rightarrow> string \<Rightarrow> error + dataframe" where
  "load_raw_data w filepath =
     (case files w filepath of
        None \<Rightarrow> Inl (FileNotFoundError filepath)
      | Some (CsvFile df) \<Rightarrow> Inr df
      | Some _ \<Rightarrow> Inl (ParserError filepath))"

definition write_file :: "world \<Rightarrow> string \<Rightarrow> file_content \<Rightarrow> world" where
  "write_file w filepath f = w\<lparr>files := (files w)(filepath \<mapsto> f)\<rparr>"

definition save_processed_data :: "world \<Rightarrow> dataframe \<Rightarrow> string \<Rightarrow> world" where
  "save_processed_data w df filepath = write_file w filepath (CsvFile df)"

definition generate_data_dictionary :: "world \<Rightarrow> dataframe \<Rightarrow> string \<Rightarrow> world" where
  "generate_data_dictionary w df filepath = write_file w filepath (DataDictionary df)"

definition generate_etl_report ::
  "world \<Rightarrow> dataframe \<Rightarrow> dataframe \<Rightarrow> string \<Rightarrow> error + world" where
  "generate_etl_report w df_before df_after filepath =
     (if nrows df_after = 0 then Inl ZeroDivisionError
      else Inr (write_file w filepath (EtlReport df_before df_after)))"

text \<open>The steps of \<open>run_etl\<close> up to \<open>create_time_midpoint\<close>, which prints.\<close>

definition transform_to_midpoint :: "pylib \<Rightarrow> dataframe \<Rightarrow> error + dataframe \<times> message list" where
  "transform_to_midpoint L df0 =
     bind_result (rename_columns df0) (\<lambda>df.
     bind_result (Inr (drop_timestamp df)) (\<lambda>df.
     bind_result (clean_age L df) (\<lambda>df.
     bind_result (clean_gender L df) (\<lambda>df.
     bind_result (clean_yes_no L df) (\<lambda>df.
     bind_result (parse_platforms L df) (\<lambda>df.
     bind_result (parse_affiliations L df) (\<lambda>df.
     create_time_midpoint df)))))))"

definition transform_from_likert :: "pylib \<Rightarrow> dataframe \<Rightarrow> error + dataframe" where
  "transform_from_likert L df0 =
     bind_result (validate_likert_scales L df0) (\<lambda>df.
     bind_result (create_analysis_flag df) (\<lambda>df.
     Inr (reorder_columns df)))"

definition run_etl ::
  "pylib \<Rightarrow> world \<Rightarrow> string \<Rightarrow> string \<Rightarrow> string \<Rightarrow> string \<Rightarrow> (error + dataframe) \<times> world" where
  "run_etl L w raw_path processed_path dict_path report_path =
     (case load_raw_data w raw_path of
        Inl e \<Rightarrow> (Inl e, w)
      | Inr df_before \<Rightarrow>
          (case transform_to_midpoint L df_before of
             Inl e \<Rightarrow> (Inl e, w)
           | Inr (df, msgs) \<Rightarrow>
               (let w1 = w\<lparr>printed := printed w @ msgs\<rparr>
                in case transform_from_likert L df of
                     Inl e \<Rightarrow> (Inl e, w1)
                   | Inr df_after \<Rightarrow>
                       (let w2 = save_processed_data w1 df_after processed_path;
                            w3 = generate_data_dictionary w2 df_after dict_path
                        in case generate_etl_report w3 df_before df_after report_path of
                             Inl e \<Rightarrow> (Inl e, w3)
                           | Inr w4 \<Rightarrow> (Inr df_after, w4)))))"

section \<open>The analysis script (run_eda.py)\<close>

text \<open>
  The statistics come from scipy and are taken as parameters: \<open>spearmanr\<close> on two
  columns of values and \<open>kruskal\<close> on a list of samples of any length, fewer than two
  samples included. Each gives the statistic and the p-value, NaN being None, or raises.
\<close>

record scipy_lib =
  spearmanr :: "cell list \<Rightarrow> cell list \<Rightarrow> error + float64 option \<times> float64 option"
  kruskal :: "cell list list \<Rightarrow> error + float64 option \<times> float64 option"

text \<open>
  numpy's global random generator is a parameter as well: \<open>seed\<close> gives the state
  after \<open>np.random.seed\<close>, \<open>uniform\<close> draws a list of the given length and gives
  the next state.
\<close>

record 'g rng_lib =
  seed :: "nat \<Rightarrow> 'g"
  uniform :: "'g \<Rightarrow> rat \<Rightarrow> rat \<Rightarrow> nat \<Rightarrow> rat list \<times> 'g"

subsection \<open>Helper functions\<close>

text \<open>
  The decimal literals of the script are float64 values; these are their exact values.
\<close>

definition float_0_10 :: rat where "float_0_10 = 3602879701896397 / 2 ^ 55"
definition float_0_30 :: rat where "float_0_30 = 5404319552844595 / 2 ^ 54"
definition float_0_50 :: rat where "float_0_50 = 1 / 2"
definition float_0_01 :: rat where "float_0_01 = 5764607523034235 / 2 ^ 59"
definition float_0_06 :: rat where "float_0_06 = 1080863910568919 / 2 ^ 54"
definition float_0_14 :: rat where "float_0_14 = 1261007895663739 / 2 ^ 53"
definition float_0_05 :: rat where "float_0_05 = 3602879701896397 / 2 ^ 56"
definition float_0_15 :: rat where "float_0_15 = 5404319552844595 / 2 ^ 55"

text \<open>
  \<open>epsilon_squared\<close>: \<open>h / (n - 1)\<close>, a float64 statistic divided by a Python int.
  The division by 0 does not raise: it gives an infinity, and NaN for \<open>0 / 0\<close>.
\<close>

definition float_div :: "float64 \<Rightarrow> int \<Rightarrow> float64 option" where
  "float_div x d =
     (case x of
        Fin r \<Rightarrow>
          if d = 0 then (if r = 0 then None else if 0 < r then Some PosInf else Some NegInf)
          else Some (Fin (r / of_int d))
      | PosInf \<Rightarrow> if 0 \<le> d then Some PosInf else Some NegInf
      | NegInf \<Rightarrow> if 0 \<le> d then Some NegInf else Some PosInf)"

definition epsilon_squared :: "float64 option \<Rightarrow> nat \<Rightarrow> nat \<Rightarrow> float64 option" where
  "epsilon_squared h_stat n k =
     (case h_stat of None \<Rightarrow> None | Some h \<Rightarrow> float_div h (int n - 1))"

text \<open>A comparison with NaN is false, so NaN falls through to the last branch.\<close>

definition float_abs :: "float64 \<Rightarrow> float64" where
  "float_abs x = (case x of Fin r \<Rightarrow> Fin \<bar>r\<bar> | _ \<Rightarrow> PosInf)"

definition interpret_rho :: "float64 option \<Rightarrow> string" where
  "interpret_rho rho =
     (case rho of
        None \<Rightarrow> ''large''
      | Some r \<Rightarrow>
          if float_abs r < Fin float_0_10 then ''negligible''
          else if float_abs r < Fin float_0_30 then ''small''
          else if float_abs r < Fin float_0_50 then ''moderate''
          else ''large'')"

definition interpret_epsilon :: "float64 option \<Rightarrow> string" where
  "interpret_epsilon eps =
     (case eps of
        None \<Rightarrow> ''large''
      | Some e \<Rightarrow>
          if e < Fin float_0_01 then ''negligible''
          else if e < Fin float_0_06 then ''small''
          else if e < Fin float_0_14 then ''moderate''
          else ''large'')"

record test_result =
  res_n :: nat
  statistic :: "float64 option"
  p_value :: "float64 option"
  effect_size_name :: string
  effect_size_value :: "float64 option"
  interpretation_text :: string

text \<open>\<open>df[[a, b]].dropna()\<close>: the rows in which both cells are present.\<close>

definition dropna_pairs :: "cell list \<Rightarrow> cell list \<Rightarrow> (cell \<times> cell) list" where
  "dropna_pairs xs ys = filter (\<lambda>(x, y). \<not> isna x \<and> \<not> isna y) (zip xs ys)"

definition run_spearman :: "scipy_lib \<Rightarrow> dataframe \<Rightarrow> string \<Rightarrow> string \<Rightarrow> error + test_result" where
  "run_spearman S df v1 v2 =
     bind_result (getitem df v1) (\<lambda>c1.
     bind_result (getitem df v2) (\<lambda>c2.
       let data = dropna_pairs c1 c2
       in bind_result (spearmanr S (map fst data) (map snd data)) (\<lambda>(rho, p).
            Inr \<lparr>res_n = length data, statistic = rho, p_value = p,
                 effect_size_name = ''Spearman rho'', effect_size_value = rho,
                 interpretation_text = interpret_rho rho\<rparr>)))"

text \<open>
  \<open>run_kruskal\<close>. The grouping column is categorical (line 50), so
  \<open>groupby(group, observed=True)\<close> gives one group for each category that occurs, in
  the order of the categories; these are passed as \<open>categories\<close>. The samples go to
  \<open>stats.kruskal\<close> as they are: the function has no check of their number and no
  \<open>try\<close>.
\<close>

definition group_samples :: "string list \<Rightarrow> (cell \<times> cell) list \<Rightarrow> cell list list" where
  "group_samples categories data =
     filter (\<lambda>g. 0 < length g)
       (map (\<lambda>c. map snd (filter (\<lambda>(x, y). x = Str c) data)) categories)"

definition run_kruskal ::
  "scipy_lib \<Rightarrow> string list \<Rightarrow> dataframe \<Rightarrow> string \<Rightarrow> string \<Rightarrow> error + test_result" where
  "run_kruskal S categories df group_col outcome_col =
     bind_result (getitem df group_col) (\<lambda>c1.
     bind_result (getitem df outcome_col) (\<lambda>c2.
       let data = dropna_pairs c1 c2;
           groups = group_samples categories data
       in bind_result (kruskal S groups) (\<lambda>(h, p).
            let eps = epsilon_squared h (length data) (length groups)
            in Inr \<lparr>res_n = length data, statistic = h, p_value = p,
                    effect_size_name = ''epsilon_squared'', effect_size_value = eps,
                    interpretation_text = interpret_epsilon eps\<rparr>)))"

subsection \<open>Loading and the hypothesis tests\<close>

definition TIME_BAND_ORDER :: "string list" where
  "TIME_BAND_ORDER =
     [''Less than an Hour'', ''Between 1 and 2 hours'', ''Between 2 and 3 hours'',
      ''Between 3 and 4 hours'', ''Between 4 and 5 hours'', ''More than 5 hours'']"

text \<open>\<open>df[mask]\<close>: the rows at which the Boolean mask \<open>keep\<close> is true.\<close>

definition select_rows :: "bool list \<Rightarrow> dataframe \<Rightarrow> dataframe" where
  "select_rows keep df =
     map (\<lambda>(k, v). (k, map fst (filter (\<lambda>(c, m). m) (zip v keep)))) df"

text \<open>\<open>pd.Categorical(column, categories)\<close>: a value outside the categories is NaN.\<close>

definition categorical :: "string list \<Rightarrow> cell \<Rightarrow> cell" where
  "categorical categories c = (if c \<in> Str ` set categories then c else NA)"

definition load_analysis_rows :: "dataframe \<Rightarrow> error + dataframe" where
  "load_analysis_rows df_full =
     bind_result (getitem df_full ''include_in_analysis'') (\<lambda>inc.
       let df = select_rows (map eq_True inc) df_full
       in bind_result (getitem df ''daily_time_band'') (\<lambda>band.
            Inr (setitem df ''daily_time_band'' (map (categorical TIME_BAND_ORDER) band))))"

text \<open>
  The data-quality assertion on each Likert column. \<open>min()\<close> and \<open>max()\<close> of a
  column without a present value are NaN, and the assertion fails on them. In a column
  that holds text they are strings, and the comparison with 1 raises TypeError.
\<close>

definition numeric_value :: "cell \<Rightarrow> float64 option" where
  "numeric_value c =
     (case c of Float x \<Rightarrow> Some x | Bool b \<Rightarrow> Some (Fin (if b then 1 else 0)) | _ \<Rightarrow> None)"

definition assert_likert :: "string \<Rightarrow> dataframe \<Rightarrow> error + dataframe" where
  "assert_likert col df =
     bind_result (getitem df col) (\<lambda>v.
       let ps = present (map numeric_value v)
       in if list_ex (\<lambda>c. case c of Str s \<Rightarrow> True | _ \<Rightarrow> False) v
          then Inl (LibraryError ''TypeError in >='')
          else if ps \<noteq> [] \<and> Fin 1 \<le> Min (set ps) \<and> Max (set ps) \<le> Fin 5 then Inr df
          else Inl (AssertionError (''Likert fail: '' @ col)))"

record hypothesis_result =
  hypothesis_id :: string
  outcome :: string
  predictor :: string
  test_used :: string
  result :: test_result
  significant :: bool

text \<open>\<open>p_value < 0.05\<close>, false on NaN.\<close>

definition is_significant :: "float64 option \<Rightarrow> bool" where
  "is_significant p = (case p of None \<Rightarrow> False | Some x \<Rightarrow> x < Fin float_0_05)"

definition make_result :: "string \<Rightarrow> string \<Rightarrow> string \<Rightarrow> string \<Rightarrow> test_result \<Rightarrow> hypothesis_result" where
  "make_result hid out pre test r =
     \<lparr>hypothesis_id = hid, outcome = out, predictor = pre, test_used = test, result = r,
      significant = is_significant (p_value r)\<rparr>"

definition hypothesis_testing :: "scipy_lib \<Rightarrow> dataframe \<Rightarrow> error + hypothesis_result list" where
  "hypothesis_testing S df =
     bind_result (run_kruskal S TIME_BAND_ORDER df ''daily_time_band'' ''low_mood_freq'') (\<lambda>h1.
     bind_result (run_spearman S df ''purposeless_use'' ''low_mood_freq'') (\<lambda>h2.
     bind_result (run_spearman S df ''compare_to_successful'' ''low_mood_freq'') (\<lambda>h3.
     bind_result (run_spearman S df ''seek_validation'' ''low_mood_freq'') (\<lambda>h4.
     bind_result (run_spearman S df ''restless_without_sm'' ''sleep_issues'') (\<lambda>h5.
       Inr [make_result ''H1'' ''low_mood_freq'' ''daily_time_band'' ''Kruskal-Wallis'' h1,
            make_result ''H2'' ''low_mood_freq'' ''purposeless_use'' ''Spearman'' h2,
            make_result ''H3'' ''low_mood_freq'' ''compare_to_successful'' ''Spearman'' h3,
            make_result ''H4'' ''low_mood_freq'' ''seek_validation'' ''Spearman'' h4,
            make_result ''H5'' ''sleep_issues'' ''restless_without_sm'' ''Spearman'' h5])))))"

subsection \<open>Figures\<close>

text \<open>
  The figures that are drawn between the tests and the first scatter plot read columns
  of the table. Of these only the nine platform columns, read for the first figure,
  have not been read before; an absent one ends the script there with KeyError. What
  these figures show is not modelled.
\<close>

definition PLATFORM_COLS :: "string list" where
  "PLATFORM_COLS =
     [''platform_facebook'', ''platform_twitter'', ''platform_instagram'',
      ''platform_youtube'', ''platform_snapchat'', ''platform_discord'',
      ''platform_reddit'', ''platform_pinterest'', ''platform_tiktok'']"

definition platform_usage :: "dataframe \<Rightarrow> error + cell list list" where
  "platform_usage df = getitems df PLATFORM_COLS"

text \<open>
  A scatter plot with jitter: \<open>column + np.random.uniform(-0.15, 0.15, len(df))\<close> for
  each axis; a missing cell stays missing and an infinity stays what it is.
\<close>

definition float_add :: "float64 \<Rightarrow> rat \<Rightarrow> float64" where
  "float_add x e = (case x of Fin r \<Rightarrow> Fin (r + e) | _ \<Rightarrow> x)"

definition jitter :: "'g rng_lib \<Rightarrow> 'g \<Rightarrow> cell list \<Rightarrow> float64 option list \<times> 'g" where
  "jitter R g col =
     (let (noise, g') = uniform R g (- float_0_15) float_0_15 (length col)
      in (map2 (\<lambda>c e. map_option (\<lambda>x. float_add x e) (numeric_value c)) col noise, g'))"

definition scatter ::
  "'g rng_lib \<Rightarrow> 'g \<Rightarrow> dataframe \<Rightarrow> string \<Rightarrow> string
     \<Rightarrow> error + (float64 option \<times> float64 option) list \<times> 'g" where
  "scatter R g df xcol ycol =
     bind_result (getitem df xcol) (\<lambda>cx.
       let (x, g1) = jitter R g cx
       in bind_result (getitem df ycol) (\<lambda>cy.
            let (y, g2) = jitter R g1 cy
            in Inr (zip x y, g2)))"

text \<open>
  The segment plots: a box per subgroup, for the subgroups of at least 10 rows.
  \<open>value_counts().get(b, 0)\<close> is the number of rows whose cell is \<open>b\<close>. When no
  subgroup has 10 rows, \<open>ax.boxplot\<close> is called on an empty list and raises ValueError.
\<close>

definition value_count :: "cell list \<Rightarrow> string \<Rightarrow> nat" where
  "value_count col b = length (filter (\<lambda>c. c = Str b) col)"

record segment_plot =
  tick_labels :: "string list"
  box_data :: "float64 list list"

definition segment_plot_of ::
  "dataframe \<Rightarrow> string \<Rightarrow> string list \<Rightarrow> error + segment_plot" where
  "segment_plot_of df segment_col candidates =
     bind_result (getitem df segment_col) (\<lambda>seg.
       let valid = filter (\<lambda>b. 10 \<le> value_count seg b) candidates
       in if valid = [] then Inl (LibraryError ''ValueError in ax.boxplot'')
          else bind_result (getitem df ''low_mood_freq'') (\<lambda>mood.
            Inr \<lparr>tick_labels = valid,
                 box_data = map (\<lambda>b. present (map (\<lambda>(s, m). numeric_value m)
                                                (filter (\<lambda>(s, m). s = Str b) (zip seg mood))))
                                valid\<rparr>))"

subsection \<open>The script\<close>

text \<open>
  What a run produces: the table of hypothesis results, the points of the two jittered
  scatter plots and the two segment plots. Of the other figures only the reading of
  their columns is modelled, and the summary text is left out.
\<close>

record eda_output =
  hypothesis_results :: "hypothesis_result list"
  h2_purposeless_vs_mood :: "(float64 option \<times> float64 option) list"
  h5_restless_vs_sleep :: "(float64 option \<times> float64 option) list"
  segment_mood_by_age :: segment_plot
  segment_mood_by_gender :: segment_plot

definition run_eda :: "scipy_lib \<Rightarrow> 'g rng_lib \<Rightarrow> dataframe \<Rightarrow> error + eda_output" where
  "run_eda S R df_full =
     bind_result (load_analysis_rows df_full) (\<lambda>df.
     bind_result (for_each assert_likert LIKERT_COLUMNS df) (\<lambda>df.
     bind_result (hypothesis_testing S df) (\<lambda>results.
     bind_result (platform_usage df) (\<lambda>usage.
     bind_result (scatter R (seed R 42) df ''purposeless_use'' ''low_mood_freq'') (\<lambda>(h2, g).
     bind_result (scatter R g df ''restless_without_sm'' ''sleep_issues'') (\<lambda>(h5, g').
     bind_result (segment_plot_of df ''age_band'' [''<18'', ''18-24'', ''25-34'', ''35-44'', ''45+''])
       (\<lambda>by_age.
     bind_result (segment_plot_of df ''gender_grouped'' [''Male'', ''Female'']) (\<lambda>by_gender.
       Inr \<lparr>hypothesis_results = results,
            h2_purposeless_vs_mood = h2,
            h5_restless_vs_sleep = h5,
            segment_mood_by_age = by_age,
            segment_mood_by_gender = by_gender\<rparr>))))))))"

section \<open>Library instances for the concrete examples\<close>

text \<open>
  The examples below give cells as \<open>Num\<close> and \<open>Str\<close> directly. In this instance no
  text parses as a number; the statistics are constant and the generator draws zeros.
\<close>

definition example_pylib :: pylib where
  "example_pylib = \<lparr>parse_number = (\<lambda>s. None), repr_number = (\<lambda>r. ''0'')\<rparr>"

definition example_scipy :: scipy_lib where
  "example_scipy =
     \<lparr>spearmanr = (\<lambda>xs ys. Inr (Some (Fin 0), Some (Fin 1))),
      kruskal = (\<lambda>samples. Inr (Some (Fin 0), Some (Fin 1)))\<rparr>"

definition example_rng :: "nat rng_lib" where
  "example_rng = \<lparr>seed = (\<lambda>s. s), uniform = (\<lambda>g lo hi k. (replicate k 0, g + k))\<rparr>"

text \<open>A second generator, which always draws the upper bound.\<close>

definition example_rng_high :: "nat rng_lib" where
  "example_rng_high = \<lparr>seed = (\<lambda>s. s), uniform = (\<lambda>g lo hi k. (replicate k hi, g + k))\<rparr>"

text \<open>
  A cleaned table of 12 respondents, all included in the analysis: two time bands, ten
  respondents aged 18-24 and two aged 45+, every platform used and every Likert
  answer 3.
\<close>

definition example_clean_table :: dataframe where
  "example_clean_table =
     [(''include_in_analysis'', replicate 12 (Bool True)),
      (''daily_time_band'',
         replicate 6 (Str ''Less than an Hour'') @ replicate 6 (Str ''More than 5 hours'')),
      (''age_band'', replicate 10 (Str ''18-24'') @ replicate 2 (Str ''45+'')),
      (''gender_grouped'', replicate 12 (Str ''Female''))]
     @ map (\<lambda>c. (c, replicate 12 (Num 1))) PLATFORM_COLS
     @ map (\<lambda>c. (c, replicate 12 (Num 3))) LIKERT_COLUMNS"

text \<open>
  A raw table of one respondent, the columns in the order of \<open>COLUMN_MAPPING\<close>: aged
  22, "Female", a user of Instagram and YouTube for 2 to 3 hours a day, with the cell
  \<open>x\<close> as the answer to the first Likert question, \<open>y\<close> to the last one and 3 to the
  ten between.
\<close>

definition example_raw_row :: "cell \<Rightarrow> cell \<Rightarrow> cell list" where
  "example_raw_row x y =
     [Str ''4/18/2022 19:18:47'', Num 22, Str ''Female'', Str ''Single'',
      Str ''University Student'', Str ''University'', Str ''Yes'', Str ''Instagram, YouTube'',
      Str ''Between 2 and 3 hours'',
      x, Num 3, Num 3, Num 3, Num 3, Num 3, Num 3, Num 3, Num 3, Num 3, Num 3, y]"

definition example_raw_table :: "cell \<Rightarrow> cell \<Rightarrow> dataframe" where
  "example_raw_table x y = map2 (\<lambda>(k, k') c. (k, [c])) COLUMN_MAPPING (example_raw_row x y)"

definition example_world :: "cell \<Rightarrow> cell \<Rightarrow> world" where
  "example_world x y =
     \<lparr>files = [''data/raw/v1/smmh.csv'' \<mapsto> CsvFile (example_raw_table x y)], printed = []\<rparr>"

section \<open>Verified properties\<close>

subsection \<open>Results and data frames\<close>

lemma bind_result_Inr [simp]: "bind_result (Inr x) f = f x"
  by (simp add: bind_result_def)

lemma bind_result_Inl [simp]: "bind_result (Inl e) f = Inl e"
  by (simp add: bind_result_def)

lemma getitem_setitem:
  "getitem (setitem df c v) k = (if k = c then Inr v else getitem df k)"
  by (simp add: getitem_def setitem_def update_conv')

lemma getitem_drop_column:
  "getitem (drop_column df c) k = (if k = c then Inl (KeyError k) else getitem df k)"
  by (simp add: getitem_def drop_column_def delete_conv')

lemma contains_empty: "contains [] hay"
  by (induction hay) simp_all

lemma contains_iff_sublist: "contains needle hay \<longleftrightarrow> sublist needle hay"
  by (induction hay) (auto simp: sublist_Cons_right)

lemma lower_Nil [simp]: "lower [] = []"
  by (simp add: lower_def)

lemma bind_result_eq_Inr:
  "bind_result r f = Inr y \<longleftrightarrow> (\<exists>x. r = Inr x \<and> f x = Inr y)"
  by (cases r) simp_all

lemma for_each_assert_likert:
  "for_each assert_likert cs df = Inr df' \<Longrightarrow> df' = df"
proof (induction cs arbitrary: df)
  case Nil
  then show ?case by simp
next
  case (Cons c cs)
  from Cons.prems obtain d where d: "assert_likert c df = Inr d" "for_each assert_likert cs d = Inr df'"
    by (auto simp: bind_result_eq_Inr)
  from d(1) have "d = df"
    by (auto simp: assert_likert_def bind_result_eq_Inr Let_def split: if_splits)
  with Cons.IH d(2) show ?case by simp
qed

subsection \<open>Affiliation flags\<close>

lemma has_affiliation_na: "has_affiliation L [''N/A'', ''NA'', ''''] val = 1"
  by (simp add: has_affiliation_def contains_empty)

lemma affil_col_neq_raw: "affil_col k \<noteq> ''org_affiliations_raw''"
  by (simp add: affil_col_def)

text \<open>
  Claim C5. The \<open>affil_na\<close> flag is 1 in every row: the match values of the "na"
  bucket contain the empty string, so a missing value matches, and the empty string is
  contained in every text, so every present value matches too.
\<close>

theorem C5_affil_na:
  "(\<forall>values. map_of AFFILIATIONS ''na'' = Some values \<longrightarrow>
      (\<forall>val. has_affiliation L values val = 1))
   \<and> (getitem df ''org_affiliations_raw'' = Inr raw \<longrightarrow>
        (\<exists>df'. parse_affiliations L df = Inr df'
           \<and> getitem df' ''affil_na'' = Inr (map (\<lambda>v. Num 1) raw)))"
proof (intro conjI allI impI)
  fix vs val assume "map_of AFFILIATIONS ''na'' = Some vs"
  then have "vs = [''N/A'', ''NA'', '''']"
    by (simp add: AFFILIATIONS_def)
  then show "has_affiliation L vs val = 1"
    by (simp only: has_affiliation_na)
next
  assume raw: "getitem df ''org_affiliations_raw'' = Inr raw"
  show "\<exists>df'. parse_affiliations L df = Inr df'
           \<and> getitem df' ''affil_na'' = Inr (map (\<lambda>v. Num 1) raw)"
    unfolding parse_affiliations_def AFFILIATIONS_def
    by (simp add: raw getitem_setitem affil_col_def has_affiliation_na)
qed

text \<open>C5 on a column of three rows, one of them missing.\<close>

theorem C5_affil_na_witness:
  "has_affiliation example_pylib [''N/A'', ''NA'', ''''] (Str ''University, Company'') = 1
   \<and> (\<exists>df'. parse_affiliations example_pylib
               [(''org_affiliations_raw'', [Str ''University'', NA, Str ''School''])] = Inr df'
           \<and> getitem df' ''affil_na'' = Inr [Num 1, Num 1, Num 1])"
proof -
  define raw where "raw = [Str ''University'', NA, Str ''School'']"
  define df where "df = [(''org_affiliations_raw'', raw)]"
  note T = C5_affil_na [of example_pylib df raw]
  have na: "map_of AFFILIATIONS ''na'' = Some [''N/A'', ''NA'', '''']"
    by (simp add: AFFILIATIONS_def)
  have g: "getitem df ''org_affiliations_raw'' = Inr raw"
    by (simp add: getitem_def df_def)
  have 1: "has_affiliation example_pylib [''N/A'', ''NA'', ''''] (Str ''University, Company'') = 1"
    by (rule T [THEN conjunct1, THEN spec, THEN mp, OF na, THEN spec])
  from T [THEN conjunct2, THEN mp, OF g] obtain df' where
    r: "parse_affiliations example_pylib df = Inr df'"
       "getitem df' ''affil_na'' = Inr (map (\<lambda>v. Num 1) raw)"
    by (elim exE conjE)
  have 2: "\<exists>df'. parse_affiliations example_pylib df = Inr df'
           \<and> getitem df' ''affil_na'' = Inr [Num 1, Num 1, Num 1]"
    using r by (intro exI [of _ df']) (simp add: raw_def)
  from 1 2 show ?thesis unfolding df_def raw_def by (intro conjI)
qed

subsection \<open>The analysis flag\<close>

lemma to_bool_cases: "bool_cell (to_bool L v) \<in> {NA, Bool True, Bool False}"
  by (cases "to_bool L v") (auto simp: bool_cell_def)

lemma eq_True_bool_cell: "eq_True (bool_cell b) \<longleftrightarrow> b = Some True"
  by (cases b) (auto simp: eq_True_def bool_cell_def)

text \<open>
  Claim C2. After \<open>clean_yes_no\<close> the column \<open>uses_social_media\<close> holds True, False
  or a missing value in every row, and \<open>include_in_analysis\<close> is True in a row exactly
  when \<open>uses_social_media\<close> is True there: False and missing both give False.
\<close>

theorem C2_include_in_analysis:
  assumes "getitem df ''uses_social_media'' = Inr raw"
  shows "\<exists>df1 df2 uses incl.
           clean_yes_no L df = Inr df1 \<and> create_analysis_flag df1 = Inr df2
           \<and> getitem df2 ''uses_social_media'' = Inr uses
           \<and> getitem df2 ''include_in_analysis'' = Inr incl
           \<and> length uses = length raw \<and> length incl = length raw
           \<and> (\<forall>i < length raw.
                 uses ! i \<in> {Bool True, Bool False, NA}
                 \<and> (incl ! i = Bool True \<longleftrightarrow> uses ! i = Bool True)
                 \<and> (uses ! i = Bool False \<longrightarrow> incl ! i = Bool False)
                 \<and> (uses ! i = NA \<longrightarrow> incl ! i = Bool False))"
proof -
  let ?uses = "map (\<lambda>v. bool_cell (to_bool L v)) raw"
  let ?df1 = "setitem df ''uses_social_media'' ?uses"
  let ?incl = "map (\<lambda>c. Bool (eq_True c)) ?uses"
  let ?df2 = "setitem ?df1 ''include_in_analysis'' ?incl"
  have 1: "clean_yes_no L df = Inr ?df1"
    by (simp add: clean_yes_no_def assms)
  have 2: "create_analysis_flag ?df1 = Inr ?df2"
    by (simp add: create_analysis_flag_def getitem_setitem)
  have 3: "getitem ?df2 ''uses_social_media'' = Inr ?uses"
    by (simp add: getitem_setitem)
  have 4: "getitem ?df2 ''include_in_analysis'' = Inr ?incl"
    by (simp add: getitem_setitem)
  have 5: "\<forall>i < length raw.
                 ?uses ! i \<in> {Bool True, Bool False, NA}
                 \<and> (?incl ! i = Bool True \<longleftrightarrow> ?uses ! i = Bool True)
                 \<and> (?uses ! i = Bool False \<longrightarrow> ?incl ! i = Bool False)
                 \<and> (?uses ! i = NA \<longrightarrow> ?incl ! i = Bool False)"
  proof (intro allI impI)
    fix i assume "i < length raw"
    then show "?uses ! i \<in> {Bool True, Bool False, NA}
                 \<and> (?incl ! i = Bool True \<longleftrightarrow> ?uses ! i = Bool True)
                 \<and> (?uses ! i = Bool False \<longrightarrow> ?incl ! i = Bool False)
                 \<and> (?uses ! i = NA \<longrightarrow> ?incl ! i = Bool False)"
      by (cases "to_bool L (raw ! i)") (auto simp: bool_cell_def eq_True_def)
  qed
  from 1 2 3 4 5 show ?thesis
    by (intro exI [of _ ?df1] exI [of _ ?df2] exI [of _ ?uses] exI [of _ ?incl]) simp
qed

text \<open>C2 on the answers "Yes", "no", "maybe" and a missing answer.\<close>

theorem C2_include_in_analysis_witness:
  "\<exists>df1 df2.
     clean_yes_no example_pylib [(''uses_social_media'', [Str ''Yes'', Str ''no'', Str ''maybe'', NA])]
       = Inr df1
     \<and> create_analysis_flag df1 = Inr df2
     \<and> getitem df2 ''uses_social_media'' = Inr [Bool True, Bool False, NA, NA]
     \<and> getitem df2 ''include_in_analysis'' = Inr [Bool True, Bool False, Bool False, Bool False]"
proof -
  let ?raw = "[Str ''Yes'', Str ''no'', Str ''maybe'', NA]"
  let ?df = "[(''uses_social_media'', ?raw)]"
  have g: "getitem ?df ''uses_social_media'' = Inr ?raw"
    by (simp add: getitem_def)
  from C2_include_in_analysis [OF g, of example_pylib]
  obtain df1 df2 uses incl where
    s: "clean_yes_no example_pylib ?df = Inr df1" "create_analysis_flag df1 = Inr df2"
       "getitem df2 ''uses_social_media'' = Inr uses"
       "getitem df2 ''include_in_analysis'' = Inr incl"
    by blast
  have a: "clean_yes_no example_pylib ?df = Inr [(''uses_social_media'', [Bool True, Bool False, NA, NA])]"
    by (simp add: clean_yes_no_def g setitem_def to_bool_def isna_def py_str_def strip_def
        is_space_def lower_def lower_char_def ascii_uppercase_def ascii_lowercase_def latin1_uppercase_def latin1_lowercase_def bool_cell_def)
  then have df1: "df1 = [(''uses_social_media'', [Bool True, Bool False, NA, NA])]"
    using s(1) by simp
  have "create_analysis_flag df1 = Inr [(''uses_social_media'', [Bool True, Bool False, NA, NA]),
      (''include_in_analysis'', [Bool True, Bool False, Bool False, Bool False])]"
    unfolding df1 by (simp add: create_analysis_flag_def getitem_def setitem_def eq_True_def)
  then have df2: "df2 = [(''uses_social_media'', [Bool True, Bool False, NA, NA]),
      (''include_in_analysis'', [Bool True, Bool False, Bool False, Bool False])]"
    using s(2) by simp
  show ?thesis
    using s(1,2) unfolding df2 by (intro exI [of _ df1] exI [of _ df2]) (simp add: getitem_def df2)
qed

subsection \<open>Age\<close>

lemma present_map_option: "present (map (map_option f) vs) = map f (present vs)"
  by (induction vs) (auto simp: present_def split: option.splits)

lemma present_set: "x \<in> set (present vs) \<longleftrightarrow> Some x \<in> set vs"
  by (induction vs) (auto simp: present_def split: option.splits)

lemma series_apply_get_age_band:
  assumes "\<forall>x \<in> set (present vs). \<exists>r. x = Fin r"
  shows "\<exists>bands. series_apply get_age_band vs = Inr bands \<and> length bands = length vs
           \<and> (\<forall>i < length vs. get_age_band (vs ! i) = Inr (bands ! i))"
  using assms
proof (induction vs)
  case Nil
  then show ?case by simp
next
  case (Cons v vs)
  have "\<forall>x \<in> set (present vs). \<exists>r. x = Fin r"
    using Cons.prems by (auto simp: present_def)
  with Cons.IH obtain bands where
    b: "series_apply get_age_band vs = Inr bands" "length bands = length vs"
       "\<forall>i < length vs. get_age_band (vs ! i) = Inr (bands ! i)"
    by blast
  have "\<exists>s. get_age_band v = Inr s"
  proof (cases v)
    case None
    then show ?thesis by (simp add: get_age_band_def)
  next
    case (Some x)
    with Cons.prems obtain r where "x = Fin r"
      by (auto simp: present_def)
    with Some show ?thesis by (simp add: get_age_band_def Let_def)
  qed
  then obtain s where s: "get_age_band v = Inr s" ..
  have "\<forall>i < length (v # vs). get_age_band ((v # vs) ! i) = Inr ((s # bands) ! i)"
    using s b(3) by (auto simp: nth_Cons split: nat.splits)
  with s b(1,2) show ?case by simp
qed

lemma to_Int64_rounded:
  assumes "\<forall>x \<in> set (present vs). \<exists>r. x = Fin r \<and> \<bar>round_half_even r\<bar> < 2 ^ 63"
  shows "to_Int64 (map (map_option series_round) vs)
           = Inr (map (\<lambda>v. float_cell (map_option series_round v)) vs)"
proof -
  have "is_int64 (series_round x)" if "x \<in> set (present vs)" for x
  proof -
    from assms that obtain r where r: "x = Fin r" "\<bar>round_half_even r\<bar> < 2 ^ 63"
      by blast
    define n where "n = round_half_even r"
    from r(2) have "- (2 ^ 63) \<le> n" "n < 2 ^ 63"
      by (simp_all add: n_def abs_less_iff)
    then have "- (2 ^ 63) \<le> (of_int n :: rat)" "(of_int n :: rat) < 2 ^ 63"
      by (metis of_int_le_iff of_int_minus of_int_numeral of_int_power,
          metis of_int_less_iff of_int_numeral of_int_power)
    then show ?thesis
      by (simp add: r(1) series_round_def is_int64_def is_whole_def n_def)
  qed
  then have "list_all is_int64 (present (map (map_option series_round) vs))"
    by (simp add: present_map_option list_all_iff)
  then show ?thesis
    by (simp add: to_Int64_def)
qed

lemma round_half_even_near:
  "\<bar>of_int (round_half_even r) - r\<bar> \<le> 1/2"
  "\<bar>of_int (round_half_even r) - r\<bar> = 1/2 \<Longrightarrow> even (round_half_even r)"
proof -
  define f where "f = \<lfloor>r\<rfloor>"
  define d where "d = r - of_int f"
  have d: "0 \<le> d" "d < 1" "r = of_int f + d"
    by (simp_all add: d_def f_def) linarith
  show "\<bar>of_int (round_half_even r) - r\<bar> \<le> 1/2"
    using d by (auto simp: round_half_even_def Let_def f_def [symmetric] d_def [symmetric])
  show "even (round_half_even r)" if "\<bar>of_int (round_half_even r) - r\<bar> = 1/2"
    using d that
    by (auto simp: round_half_even_def Let_def f_def [symmetric] d_def [symmetric]
        split: if_splits)
qed

lemma py_int_less_iff: "py_int r < n \<longleftrightarrow> r < of_int n" if "0 < n"
proof (cases "0 \<le> r")
  case True
  then show ?thesis by (simp add: py_int_def floor_less_iff)
next
  case False
  then have c: "\<lceil>r\<rceil> \<le> 0"
    by (simp add: ceiling_le_iff)
  have "(0 :: rat) < of_int n"
    using that by simp
  with False have "r < of_int n"
    by linarith
  moreover from c that have "\<lceil>r\<rceil> < n"
    by linarith
  ultimately show ?thesis
    using False by (simp add: py_int_def)
qed

lemma py_int_le_iff: "py_int r \<le> n \<longleftrightarrow> r < of_int n + 1" if "0 \<le> n"
  using py_int_less_iff [of "n + 1" r] that by simp

lemma get_age_band_cutoffs:
  "get_age_band (Some (Fin r)) =
     Inr (if r < 18 then ''<18'' else if r < 25 then ''18-24'' else if r < 35 then ''25-34''
          else if r < 45 then ''35-44'' else ''45+'')"
  using py_int_less_iff [of 18 r] py_int_le_iff [of 24 r] py_int_le_iff [of 34 r]
    py_int_le_iff [of 44 r]
  by (simp add: get_age_band_def Let_def)

text \<open>
  Claim C4 says that an age outside the range becomes missing. \<open>clean_age\<close> has no
  range: the ages -5 and 1000 are kept and banded, only the text that is no number
  becomes missing.
\<close>

theorem C4_age_counterexample:
  "clean_age example_pylib [(''age'', [Num (- 5), Num 1000, Str ''abc''])]
     = Inr [(''age'', [Num (- 5), Num 1000, NA]),
            (''age_band'', [Str ''<18'', Str ''45+'', Str ''Unknown''])]"
  by code_simp

text \<open>
  Claim C4, amended. Take an age column in which every value that \<open>to_numeric\<close> reads
  as a number is finite and rounds to a whole number of magnitude below \<open>2 ^ 63\<close>.
  Then \<open>clean_age\<close> returns, and row by row: a raw age that is not read as a number
  becomes missing, with the band "Unknown"; a raw age that is read as the number \<open>r\<close>
  is kept, as the whole number nearest to \<open>r\<close> (the even one of two), and its band is
  "<18" for \<open>r\<close> below 18, "18-24" from 18 to below 25, "25-34" from 25 to below 35,
  "35-44" from 35 to below 45 and "45+" from 45 on. No numeric age becomes missing.
\<close>

theorem C4_age_amended:
  assumes "getitem df ''age'' = Inr raw" and "ages_castable L raw"
  shows "\<exists>df' age band.
           clean_age L df = Inr df'
           \<and> getitem df' ''age'' = Inr age \<and> getitem df' ''age_band'' = Inr band
           \<and> length age = length raw \<and> length band = length raw
           \<and> (\<forall>i < length raw.
                 (to_numeric L (raw ! i) = None \<longrightarrow> age ! i = NA \<and> band ! i = Str ''Unknown'')
                 \<and> (\<forall>r. to_numeric L (raw ! i) = Some (Fin r) \<longrightarrow>
                        (\<exists>n. age ! i = Num (of_int n) \<and> \<bar>of_int n - r\<bar> \<le> 1/2
                              \<and> (\<bar>of_int n - r\<bar> = 1/2 \<longrightarrow> even n))
                        \<and> (r < 18 \<longrightarrow> band ! i = Str ''<18'')
                        \<and> (18 \<le> r \<and> r < 25 \<longrightarrow> band ! i = Str ''18-24'')
                        \<and> (25 \<le> r \<and> r < 35 \<longrightarrow> band ! i = Str ''25-34'')
                        \<and> (35 \<le> r \<and> r < 45 \<longrightarrow> band ! i = Str ''35-44'')
                        \<and> (45 \<le> r \<longrightarrow> band ! i = Str ''45+'')))"
proof -
  define num where "num = map (to_numeric L) raw"
  have fin: "\<forall>x \<in> set (present num). \<exists>r. x = Fin r \<and> \<bar>round_half_even r\<bar> < 2 ^ 63"
  proof
    fix x assume "x \<in> set (present num)"
    with assms(2) have "case x of Fin r \<Rightarrow> \<bar>round_half_even r\<bar> < 2 ^ 63 | _ \<Rightarrow> False"
      by (simp add: ages_castable_def num_def list_all_iff)
    then show "\<exists>r. x = Fin r \<and> \<bar>round_half_even r\<bar> < 2 ^ 63"
      by (cases x) simp_all
  qed
  then have "\<forall>x \<in> set (present num). \<exists>r. x = Fin r"
    by blast
  from series_apply_get_age_band [OF this] obtain bands where
    b: "series_apply get_age_band num = Inr bands" "length bands = length num"
       "\<forall>i < length num. get_age_band (num ! i) = Inr (bands ! i)"
    by blast
  define age where "age = map (\<lambda>v. float_cell (map_option series_round v)) num"
  define band where "band = map Str bands"
  define df' where
    "df' = setitem (setitem (setitem df ''age'' (map float_cell num)) ''age_band'' band) ''age'' age"
  have 1: "clean_age L df = Inr df'"
    unfolding df'_def age_def band_def num_def
    using b(1) [unfolded num_def] to_Int64_rounded [OF fin, unfolded num_def]
    by (simp add: clean_age_def assms(1) Let_def)
  have 2: "getitem df' ''age'' = Inr age" "getitem df' ''age_band'' = Inr band"
    by (simp_all add: getitem_setitem df'_def)
  have 3: "length age = length raw" "length band = length raw"
    using b(2) by (simp_all add: age_def band_def num_def)
  have 4: "(to_numeric L (raw ! i) = None \<longrightarrow> age ! i = NA \<and> band ! i = Str ''Unknown'')
           \<and> (\<forall>r. to_numeric L (raw ! i) = Some (Fin r) \<longrightarrow>
                  (\<exists>n. age ! i = Num (of_int n) \<and> \<bar>of_int n - r\<bar> \<le> 1/2
                        \<and> (\<bar>of_int n - r\<bar> = 1/2 \<longrightarrow> even n))
                  \<and> (r < 18 \<longrightarrow> band ! i = Str ''<18'')
                  \<and> (18 \<le> r \<and> r < 25 \<longrightarrow> band ! i = Str ''18-24'')
                  \<and> (25 \<le> r \<and> r < 35 \<longrightarrow> band ! i = Str ''25-34'')
                  \<and> (35 \<le> r \<and> r < 45 \<longrightarrow> band ! i = Str ''35-44'')
                  \<and> (45 \<le> r \<longrightarrow> band ! i = Str ''45+''))"
    if i: "i < length raw" for i
  proof -
    have n: "num ! i = to_numeric L (raw ! i)" "i < length num"
      using i by (simp_all add: num_def)
    with b(3) have g: "get_age_band (to_numeric L (raw ! i)) = Inr (bands ! i)"
      by metis
    have a: "age ! i = float_cell (map_option series_round (to_numeric L (raw ! i)))"
      using i by (simp add: age_def num_def)
    have bd: "band ! i = Str (bands ! i)"
      using n(2) b(2) by (simp add: band_def)
    show ?thesis
    proof (intro conjI impI allI)
      assume "to_numeric L (raw ! i) = None"
      with g a bd show "age ! i = NA" "band ! i = Str ''Unknown''"
        by (simp_all add: float_cell_def get_age_band_def)
    next
      fix r assume r: "to_numeric L (raw ! i) = Some (Fin r)"
      from a r have "age ! i = Num (of_int (round_half_even r))"
        by (simp add: float_cell_def series_round_def)
      with round_half_even_near [of r]
      show "\<exists>n. age ! i = Num (of_int n) \<and> \<bar>of_int n - r\<bar> \<le> 1/2
                 \<and> (\<bar>of_int n - r\<bar> = 1/2 \<longrightarrow> even n)"
        by blast
      from g r have c: "bands ! i =
          (if r < 18 then ''<18'' else if r < 25 then ''18-24'' else if r < 35 then ''25-34''
           else if r < 45 then ''35-44'' else ''45+'')"
        by (simp add: get_age_band_cutoffs)
      show "r < 18 \<Longrightarrow> band ! i = Str ''<18''"
        by (simp add: bd c)
      show "18 \<le> r \<and> r < 25 \<Longrightarrow> band ! i = Str ''18-24''"
        by (simp add: bd c)
      show "25 \<le> r \<and> r < 35 \<Longrightarrow> band ! i = Str ''25-34''"
        by (simp add: bd c)
      show "35 \<le> r \<and> r < 45 \<Longrightarrow> band ! i = Str ''35-44''"
        by (simp add: bd c)
      show "45 \<le> r \<Longrightarrow> band ! i = Str ''45+''"
        by (simp add: bd c)
    qed
  qed
  show ?thesis
    apply (rule exI [of _ df'], rule exI [of _ age], rule exI [of _ band])
    using 1 2 3 4 by simp
qed

text \<open>The amended C4 on the ages 22 and "abc".\<close>

theorem C4_age_amended_witness:
  "\<exists>df'. clean_age example_pylib [(''age'', [Num 22, Str ''abc''])] = Inr df'
      \<and> getitem df' ''age'' = Inr [Num 22, NA]
      \<and> getitem df' ''age_band'' = Inr [Str ''18-24'', Str ''Unknown'']"
proof -
  let ?raw = "[Num 22, Str ''abc'']"
  let ?df = "[(''age'', ?raw)]"
  have g: "getitem ?df ''age'' = Inr ?raw"
    by (simp add: getitem_def)
  have c: "ages_castable example_pylib ?raw"
    by code_simp
  from C4_age_amended [OF g c]
  obtain df' age band where
    s: "clean_age example_pylib ?df = Inr df'"
       "getitem df' ''age'' = Inr age" "getitem df' ''age_band'' = Inr band"
       "length age = length ?raw" "length band = length ?raw"
    and rows: "\<forall>i < length ?raw.
         (to_numeric example_pylib (?raw ! i) = None \<longrightarrow> age ! i = NA \<and> band ! i = Str ''Unknown'')
         \<and> (\<forall>r. to_numeric example_pylib (?raw ! i) = Some (Fin r) \<longrightarrow>
                (\<exists>n. age ! i = Num (of_int n) \<and> \<bar>of_int n - r\<bar> \<le> 1/2
                      \<and> (\<bar>of_int n - r\<bar> = 1/2 \<longrightarrow> even n))
                \<and> (r < 18 \<longrightarrow> band ! i = Str ''<18'')
                \<and> (18 \<le> r \<and> r < 25 \<longrightarrow> band ! i = Str ''18-24'')
                \<and> (25 \<le> r \<and> r < 35 \<longrightarrow> band ! i = Str ''25-34'')
                \<and> (35 \<le> r \<and> r < 45 \<longrightarrow> band ! i = Str ''35-44'')
                \<and> (45 \<le> r \<longrightarrow> band ! i = Str ''45+''))"
    by (elim exE conjE)
  have n0: "to_numeric example_pylib (?raw ! 0) = Some (Fin 22)"
    by (simp add: to_numeric_def)
  have n1: "to_numeric example_pylib (?raw ! 1) = None"
    by (simp add: to_numeric_def example_pylib_def)
  from rows [THEN spec, of 0] n0
  have r0: "\<exists>n. age ! 0 = Num (of_int n) \<and> \<bar>of_int n - (22 :: rat)\<bar> \<le> 1/2"
    and b0: "band ! 0 = Str ''18-24''"
    by auto
  from r0 obtain n :: int where n: "age ! 0 = Num (of_int n)" "\<bar>of_int n - (22 :: rat)\<bar> \<le> 1/2"
    by blast
  from n(2) have "\<bar>of_int (n - 22) :: rat\<bar> < 1"
    by simp
  then have "\<bar>n - 22\<bar> < 1"
    by (metis of_int_abs of_int_less_1_iff)
  then have "n = 22"
    by simp
  with n(1) have a0: "age ! 0 = Num 22"
    by simp
  from rows [THEN spec, of 1] n1 have a1: "age ! 1 = NA" "band ! 1 = Str ''Unknown''"
    by auto
  from s(4) a0 a1 have age: "age = [Num 22, NA]"
    by (cases age; cases "tl age") auto
  from s(5) b0 a1 have band: "band = [Str ''18-24'', Str ''Unknown'']"
    by (cases band; cases "tl band") auto
  from s(1,2,3) age band show ?thesis by blast
qed

text \<open>
  Outside the condition of the amended C4 \<open>clean_age\<close> raises: on the age \<open>10 ^ 19\<close>
  the cast to \<open>Int64\<close> fails, on an infinite age \<open>int()\<close> does.
\<close>

lemma clean_age_raises:
  "clean_age example_pylib [(''age'', [Num 22, Num (10 ^ 19)])] = Inl CannotSafelyCast
   \<and> clean_age example_pylib [(''age'', [Num 22, Float PosInf])] = Inl OverflowError"
  by code_simp

subsection \<open>Strings\<close>

lemma lower_char_cases:
  obtains "lower_char c = c"
  | "c \<in> set (ascii_uppercase @ latin1_uppercase)"
    "lower_char c \<in> set (ascii_lowercase @ latin1_lowercase)"
proof (cases "map_of (zip (ascii_uppercase @ latin1_uppercase) (ascii_lowercase @ latin1_lowercase)) c")
  case None
  then have "lower_char c = c"
    by (simp add: lower_char_def)
  then show ?thesis by (rule that(1))
next
  case (Some d)
  then have "(c, d) \<in> set (zip (ascii_uppercase @ latin1_uppercase) (ascii_lowercase @ latin1_lowercase))"
    by (rule map_of_SomeD)
  then have "c \<in> set (ascii_uppercase @ latin1_uppercase)"
    "d \<in> set (ascii_lowercase @ latin1_lowercase)"
    by (rule set_zip_leftD, rule set_zip_rightD)
  moreover have "lower_char c = d"
    using Some by (simp add: lower_char_def)
  ultimately show ?thesis
    using that(2) by simp
qed

lemma lowercase_fixed:
  "\<forall>d \<in> set (ascii_lowercase @ latin1_lowercase). lower_char d = d"
  by code_simp

lemma letters_no_space:
  "\<forall>d \<in> set (ascii_uppercase @ latin1_uppercase @ ascii_lowercase @ latin1_lowercase).
     \<not> is_space d"
  by code_simp

lemma lower_char_idem: "lower_char (lower_char c) = lower_char c"
proof (cases c rule: lower_char_cases)
  case 1
  then show ?thesis by simp
next
  case 2
  with lowercase_fixed show ?thesis by blast
qed

lemma is_space_lower_char: "is_space (lower_char c) = is_space c"
proof (cases c rule: lower_char_cases)
  case 1
  then show ?thesis by simp
next
  case 2
  with letters_no_space have "\<not> is_space c" "\<not> is_space (lower_char c)"
    by auto
  then show ?thesis by simp
qed

lemma dropWhile_space_lower:
  "dropWhile is_space (map lower_char xs) = map lower_char (dropWhile is_space xs)"
  by (induction xs) (simp_all add: is_space_lower_char)

lemma strip_lower: "strip (lower s) = lower (strip s)"
  unfolding strip_def lower_def
  by (simp add: dropWhile_space_lower rev_map)

lemma dropWhile_space_append:
  "list_all is_space l \<Longrightarrow> dropWhile is_space (l @ s) = dropWhile is_space s"
  by (induction l) simp_all

lemma strip_padded:
  assumes "list_all is_space l" "list_all is_space r"
  shows "strip (l @ s @ r) = strip s"
proof -
  have r: "list_all is_space (rev r)" using assms(2) by (simp add: list_all_iff)
  show ?thesis
  proof (cases "list_all is_space s")
    case True
    then have "list_all is_space (s @ r)" using assms(2) by simp
    then have a: "dropWhile is_space (s @ r) = []" by (simp add: list_all_iff)
    have b: "dropWhile is_space s = []" using True by (simp add: list_all_iff)
    show ?thesis unfolding strip_def
      by (simp add: dropWhile_space_append [OF assms(1)] a b)
  next
    case False
    then have "\<exists>x \<in> set s. \<not> is_space x" by (simp add: list_all_iff)
    then have "dropWhile is_space (s @ r) = dropWhile is_space s @ r"
      by auto
    then show ?thesis unfolding strip_def
      by (simp add: dropWhile_space_append [OF assms(1)] dropWhile_space_append [OF r])
  qed
qed

lemma gender_categories_fixed:
  "\<forall>g \<in> set gender_categories.
     (case map_of GENDER_NORMALISATION (lower (strip g)) of Some x \<Rightarrow> x | None \<Rightarrow> ''Other'') = g"
  by code_simp

text \<open>
  Claim C6. Gender normalisation returns each of the seven output categories unchanged
  when it is applied to that category again; a value that is present and whose stripped,
  lower-cased text is not a key of the synonym table becomes "Other"; a missing value
  becomes "Prefer not to say"; and the result does not depend on the case of the letters
  nor on white space around the text.
\<close>

theorem C6_gender:
  "(\<forall>g \<in> set gender_categories. normalise_gender L (Str g) = g)
   \<and> (\<forall>val. val \<noteq> NA \<and> lower (strip (py_str L val)) \<notin> fst ` set GENDER_NORMALISATION
         \<longrightarrow> normalise_gender L val = ''Other'')
   \<and> normalise_gender L NA = ''Prefer not to say''
   \<and> (\<forall>s t. lower s = lower t \<longrightarrow> normalise_gender L (Str s) = normalise_gender L (Str t))
   \<and> (\<forall>l s r. list_all is_space l \<and> list_all is_space r
         \<longrightarrow> normalise_gender L (Str (l @ s @ r)) = normalise_gender L (Str s))"
proof (intro conjI allI impI)
  show "\<forall>g \<in> set gender_categories. normalise_gender L (Str g) = g"
    using gender_categories_fixed by (simp add: normalise_gender_def isna_def py_str_def)
next
  fix val assume "val \<noteq> NA \<and> lower (strip (py_str L val)) \<notin> fst ` set GENDER_NORMALISATION"
  then show "normalise_gender L val = ''Other''"
    by (simp add: normalise_gender_def isna_def map_of_eq_None_iff [THEN iffD2])
next
  show "normalise_gender L NA = ''Prefer not to say''"
    by (simp add: normalise_gender_def isna_def)
next
  fix s t assume "lower s = lower t"
  then have "lower (strip s) = lower (strip t)" by (simp add: strip_lower [symmetric])
  then show "normalise_gender L (Str s) = normalise_gender L (Str t)"
    by (simp add: normalise_gender_def isna_def py_str_def)
next
  fix l s r assume "list_all is_space l \<and> list_all is_space r"
  then show "normalise_gender L (Str (l @ s @ r)) = normalise_gender L (Str s)"
    by (simp add: normalise_gender_def isna_def py_str_def strip_padded)
qed

text \<open>
  The properties of C6 at concrete values; the last one pads "male" with a no-break
  space (U+00A0) in front and a next-line character (U+0085) behind.
\<close>

theorem C6_gender_witness:
  "normalise_gender example_pylib (Str ''Non-binary'') = ''Non-binary''
   \<and> normalise_gender example_pylib (Str ''xyz'') = ''Other''
   \<and> normalise_gender example_pylib (Str ''FEMALE'') = normalise_gender example_pylib (Str ''female'')
   \<and> normalise_gender example_pylib (Str ''  trans man  '') = normalise_gender example_pylib (Str ''trans man'')
   \<and> normalise_gender example_pylib (Str ([CHR 0xA0] @ ''male'' @ [CHR 0x85])) = ''Male''"
proof -
  have a: "''Non-binary'' \<in> set gender_categories"
    by (simp add: gender_categories_def GENDER_GROUPING_def)
  have b: "Str ''xyz'' \<noteq> NA \<and> lower (strip (py_str example_pylib (Str ''xyz''))) \<notin> fst ` set GENDER_NORMALISATION"
    by code_simp
  have c: "lower ''FEMALE'' = lower ''female''"
    by code_simp
  have d: "list_all is_space ''  '' \<and> list_all is_space ''  ''"
    by code_simp
  note T = C6_gender [of example_pylib]
  have 1: "normalise_gender example_pylib (Str ''Non-binary'') = ''Non-binary''"
    using T a by blast
  have 2: "normalise_gender example_pylib (Str ''xyz'') = ''Other''"
    using T b by blast
  have 3: "normalise_gender example_pylib (Str ''FEMALE'') = normalise_gender example_pylib (Str ''female'')"
    using T c by blast
  have "normalise_gender example_pylib (Str (''  '' @ ''trans man'' @ ''  '')) = normalise_gender example_pylib (Str ''trans man'')"
    using T d by blast
  then have 4: "normalise_gender example_pylib (Str ''  trans man  '') = normalise_gender example_pylib (Str ''trans man'')"
    by simp
  have e: "list_all is_space [CHR 0xA0] \<and> list_all is_space [CHR 0x85]"
    by code_simp
  have "normalise_gender example_pylib (Str ([CHR 0xA0] @ ''male'' @ [CHR 0x85]))
          = normalise_gender example_pylib (Str ''male'')"
    by (rule T [THEN conjunct2, THEN conjunct2, THEN conjunct2, THEN conjunct2,
          THEN spec, THEN spec, THEN spec, THEN mp, OF e])
  also have "normalise_gender example_pylib (Str ''male'') = ''Male''"
    by code_simp
  finally have 5: "normalise_gender example_pylib (Str ([CHR 0xA0] @ ''male'' @ [CHR 0x85])) = ''Male''" .
  from 1 2 3 4 5 show ?thesis by (intro conjI)
qed

subsection \<open>Time bands\<close>

lemma set_unique: "set (unique xs) = set xs"
  by (simp add: unique_def)

lemma midpoint_None_iff:
  "time_band_midpoint c = None \<longleftrightarrow> c \<notin> Str ` set (map fst TIME_BAND_MIDPOINTS)"
  by (cases c) (auto simp: time_band_midpoint_def map_of_eq_None_iff)

lemma time_band_keys: "map fst TIME_BAND_MIDPOINTS = TIME_BAND_ORDER"
  by (simp add: TIME_BAND_MIDPOINTS_def TIME_BAND_ORDER_def)

lemma unmapped_filter:
  "map snd (filter (\<lambda>(m, b). isna m \<and> \<not> isna b)
          (zip (map (\<lambda>c. num_cell (time_band_midpoint c)) band) band))
   = filter (\<lambda>c. c \<noteq> NA \<and> time_band_midpoint c = None) band"
  by (induction band) (auto simp: isna_def num_cell_def split: option.splits)

lemma create_time_midpoint_eq:
  assumes "getitem df ''daily_time_band'' = Inr band"
  shows "create_time_midpoint df =
           Inr (setitem df ''daily_hours_midpoint'' (map (\<lambda>c. num_cell (time_band_midpoint c)) band),
                let unmapped = unique (filter (\<lambda>c. c \<noteq> NA \<and> time_band_midpoint c = None) band)
                in if unmapped \<noteq> [] then [UnmappedTimeBands unmapped] else [])"
  unfolding create_time_midpoint_def
  by (simp add: assms getitem_setitem unmapped_filter Let_def)

lemma midpoint_image:
  "(\<lambda>b. time_band_midpoint (Str b)) ` set TIME_BAND_ORDER
     = Some ` {1/2, 3/2, 5/2, 7/2, 9/2, 11/2}"
proof -
  have "(\<lambda>b. time_band_midpoint (Str b)) ` set TIME_BAND_ORDER
     = {Some (11 / 2), Some (9 / 2), Some (7 / 2), Some (5 / 2), Some (3 / 2), Some (1 / 2)}"
    by (simp add: TIME_BAND_ORDER_def time_band_midpoint_def TIME_BAND_MIDPOINTS_def)
  also have "\<dots> = Some ` {1/2, 3/2, 5/2, 7/2, 9/2, 11/2}"
    by blast
  finally show ?thesis .
qed

text \<open>
  Claim C7. Each of the six known time bands has a midpoint, and the midpoints are exactly
  0.5, 1.5, 2.5, 3.5, 4.5 and 5.5; every other cell has no midpoint. On a table that has the
  column \<open>daily_time_band\<close>, \<open>create_time_midpoint\<close> returns without an error, stores
  these midpoints, and prints the warning with every present label outside the known six;
  it prints nothing when there is none.
\<close>

theorem C7_time_midpoint:
  "(\<forall>b \<in> set TIME_BAND_ORDER. time_band_midpoint (Str b) \<noteq> None)
   \<and> (\<lambda>b. time_band_midpoint (Str b)) ` set TIME_BAND_ORDER
        = Some ` {1/2, 3/2, 5/2, 7/2, 9/2, 11/2}
   \<and> (\<forall>c. c \<notin> Str ` set TIME_BAND_ORDER \<longrightarrow> time_band_midpoint c = None)
   \<and> (getitem df ''daily_time_band'' = Inr band \<longrightarrow>
        (\<exists>df' msgs. create_time_midpoint df = Inr (df', msgs)
           \<and> getitem df' ''daily_hours_midpoint''
                = Inr (map (\<lambda>c. num_cell (time_band_midpoint c)) band)
           \<and> (\<forall>c \<in> set band. c \<noteq> NA \<and> c \<notin> Str ` set TIME_BAND_ORDER \<longrightarrow>
                 (\<exists>unmapped. msgs = [UnmappedTimeBands unmapped] \<and> c \<in> set unmapped))
           \<and> ((\<forall>c \<in> set band. c = NA \<or> c \<in> Str ` set TIME_BAND_ORDER) \<longrightarrow> msgs = [])))"
proof (intro conjI impI)
  show "\<forall>b \<in> set TIME_BAND_ORDER. time_band_midpoint (Str b) \<noteq> None"
    by (simp add: midpoint_None_iff time_band_keys)
  show "(\<lambda>b. time_band_midpoint (Str b)) ` set TIME_BAND_ORDER
        = Some ` {1/2, 3/2, 5/2, 7/2, 9/2, 11/2}"
    by (rule midpoint_image)
  show "\<forall>c. c \<notin> Str ` set TIME_BAND_ORDER \<longrightarrow> time_band_midpoint c = None"
    by (simp add: midpoint_None_iff time_band_keys)
next
  assume band: "getitem df ''daily_time_band'' = Inr band"
  define mid where "mid = map (\<lambda>c. num_cell (time_band_midpoint c)) band"
  define un where "un = unique (filter (\<lambda>c. c \<noteq> NA \<and> time_band_midpoint c = None) band)"
  define msgs where "msgs = (if un \<noteq> [] then [UnmappedTimeBands un] else [])"
  define df' where "df' = setitem df ''daily_hours_midpoint'' mid"
  have run: "create_time_midpoint df = Inr (df', msgs)"
    unfolding df'_def msgs_def un_def mid_def
    using create_time_midpoint_eq [OF band] by (simp add: Let_def)
  have mid: "getitem df' ''daily_hours_midpoint'' = Inr mid"
    unfolding df'_def by (simp add: getitem_setitem)
  have un: "set un = {c \<in> set band. c \<noteq> NA \<and> c \<notin> Str ` set TIME_BAND_ORDER}"
    unfolding un_def by (simp add: set_unique midpoint_None_iff time_band_keys)
  have warn: "\<exists>unmapped. msgs = [UnmappedTimeBands unmapped] \<and> c \<in> set unmapped"
    if "c \<in> set band" "c \<noteq> NA \<and> c \<notin> Str ` set TIME_BAND_ORDER" for c
  proof -
    from that have c: "c \<in> set un" by (simp add: un)
    then have "un \<noteq> []" by auto
    then have "msgs = [UnmappedTimeBands un]" by (simp add: msgs_def)
    with c show ?thesis by blast
  qed
  have quiet: "msgs = []" if "\<forall>c \<in> set band. c = NA \<or> c \<in> Str ` set TIME_BAND_ORDER"
  proof -
    from that have "set un = {}" by (auto simp: un)
    then have "un = []" by simp
    then show ?thesis by (simp add: msgs_def)
  qed
  show "\<exists>df' msgs. create_time_midpoint df = Inr (df', msgs)
           \<and> getitem df' ''daily_hours_midpoint''
                = Inr (map (\<lambda>c. num_cell (time_band_midpoint c)) band)
           \<and> (\<forall>c \<in> set band. c \<noteq> NA \<and> c \<notin> Str ` set TIME_BAND_ORDER \<longrightarrow>
                 (\<exists>unmapped. msgs = [UnmappedTimeBands unmapped] \<and> c \<in> set unmapped))
           \<and> ((\<forall>c \<in> set band. c = NA \<or> c \<in> Str ` set TIME_BAND_ORDER) \<longrightarrow> msgs = [])"
    using run mid warn quiet unfolding mid_def by blast
qed

text \<open>C7 on a column with a known band, the label "All day" and a missing cell.\<close>

theorem C7_time_midpoint_witness:
  "time_band_midpoint (Str ''More than 5 hours'') \<noteq> None
   \<and> time_band_midpoint (Str ''All day'') = None
   \<and> (\<exists>df' unmapped.
         create_time_midpoint [(''daily_time_band'', [Str ''Less than an Hour'', Str ''All day'', NA])]
           = Inr (df', [UnmappedTimeBands unmapped])
         \<and> Str ''All day'' \<in> set unmapped
         \<and> getitem df' ''daily_hours_midpoint'' = Inr [Num (1/2), NA, NA])"
proof -
  define band where "band = [Str ''Less than an Hour'', Str ''All day'', NA]"
  define df where "df = [(''daily_time_band'', band)]"
  note T = C7_time_midpoint [of df band]
  have g: "getitem df ''daily_time_band'' = Inr band"
    by (simp add: getitem_def df_def)
  have known: "''More than 5 hours'' \<in> set TIME_BAND_ORDER"
    by (simp add: TIME_BAND_ORDER_def)
  have unknown: "Str ''All day'' \<notin> Str ` set TIME_BAND_ORDER"
    by (simp add: TIME_BAND_ORDER_def)
  have 1: "time_band_midpoint (Str ''More than 5 hours'') \<noteq> None"
    by (rule T [THEN conjunct1, rule_format, OF known])
  have 2: "time_band_midpoint (Str ''All day'') = None"
    by (rule T [THEN conjunct2, THEN conjunct2, THEN conjunct1, rule_format, OF unknown])
  from T [THEN conjunct2, THEN conjunct2, THEN conjunct2, rule_format, OF g]
  obtain df' msgs where
    r: "create_time_midpoint df = Inr (df', msgs)"
       "getitem df' ''daily_hours_midpoint'' = Inr (map (\<lambda>c. num_cell (time_band_midpoint c)) band)"
       "\<forall>c \<in> set band. c \<noteq> NA \<and> c \<notin> Str ` set TIME_BAND_ORDER \<longrightarrow>
                 (\<exists>unmapped. msgs = [UnmappedTimeBands unmapped] \<and> c \<in> set unmapped)"
    by (elim exE conjE)
  have inb: "Str ''All day'' \<in> set band" by (simp add: band_def)
  have nna: "Str ''All day'' \<noteq> NA" by simp
  from r(3) [rule_format, OF inb conjI [OF nna unknown]] obtain unmapped where
    u: "msgs = [UnmappedTimeBands unmapped]" "Str ''All day'' \<in> set unmapped"
    by (elim exE conjE)
  have m: "map (\<lambda>c. num_cell (time_band_midpoint c)) band = [Num (1/2), NA, NA]"
    by (simp add: band_def time_band_midpoint_def TIME_BAND_MIDPOINTS_def num_cell_def)
  have 3: "\<exists>df' unmapped.
         create_time_midpoint df = Inr (df', [UnmappedTimeBands unmapped])
         \<and> Str ''All day'' \<in> set unmapped
         \<and> getitem df' ''daily_hours_midpoint'' = Inr [Num (1/2), NA, NA]"
    using r(1,2) u unfolding m by (intro exI [of _ df'] exI [of _ unmapped]) simp
  show ?thesis
    using 1 2 3 unfolding df_def band_def by (intro conjI)
qed

subsection \<open>Platform flags\<close>

lemma platform_col_neq_raw: "platform_col p \<noteq> ''platforms_raw''"
  by (simp add: platform_col_def)

lemma platform_col_inj: "platform_col p = platform_col q \<longleftrightarrow> lower p = lower q"
  by (simp add: platform_col_def)

lemma platform_cols_distinct: "distinct (map platform_col PLATFORMS)"
  by (simp add: PLATFORMS_def platform_col_def lower_def lower_char_def
      ascii_uppercase_def ascii_lowercase_def latin1_uppercase_def latin1_lowercase_def)

lemma platform_count_not_col: "''platform_count'' \<notin> platform_col ` set PLATFORMS"
  by (simp add: PLATFORMS_def platform_col_def lower_def lower_char_def
      ascii_uppercase_def ascii_lowercase_def latin1_uppercase_def latin1_lowercase_def)

lemma platform_col_neq_count:
  "p \<in> set PLATFORMS \<Longrightarrow> platform_col p \<noteq> ''platform_count''"
  using platform_count_not_col by (auto simp: image_iff)

lemma nrows_setitem:
  "df \<noteq> [] \<Longrightarrow> length v = nrows df \<Longrightarrow> nrows (setitem df c v) = nrows df"
  by (cases df) (auto simp: nrows_def setitem_def)

lemma getitem_nonempty: "getitem df c = Inr v \<Longrightarrow> df \<noteq> []"
  by (auto simp: getitem_def)

lemma setitem_nonempty: "setitem df c v \<noteq> []"
  by (cases df) (auto simp: setitem_def)

lemma platform_loop:
  assumes "getitem d ''platforms_raw'' = Inr raw" "nrows d = length raw"
  shows "\<exists>d'. for_each (\<lambda>platform d.
            bind_result (getitem d ''platforms_raw'') (\<lambda>raw.
              Inr (setitem d (platform_col platform)
                     (map (\<lambda>v. Num (of_nat (has_platform L platform v))) raw)))) ps d = Inr d'
           \<and> getitem d' ''platforms_raw'' = Inr raw \<and> nrows d' = length raw
           \<and> (\<forall>k. k \<notin> platform_col ` set ps \<longrightarrow> getitem d' k = getitem d k)
           \<and> (distinct (map platform_col ps) \<longrightarrow>
                (\<forall>p \<in> set ps. getitem d' (platform_col p)
                    = Inr (map (\<lambda>v. Num (of_nat (has_platform L p v))) raw)))"
  using assms
proof (induction ps arbitrary: d)
  case Nil
  then show ?case by simp
next
  case (Cons p ps)
  let ?d1 = "setitem d (platform_col p) (map (\<lambda>v. Num (of_nat (has_platform L p v))) raw)"
  have g1: "getitem ?d1 ''platforms_raw'' = Inr raw"
    using Cons.prems(1) by (simp add: getitem_setitem platform_col_neq_raw [symmetric])
  have n1: "nrows ?d1 = length raw"
    using Cons.prems by (simp add: nrows_setitem getitem_nonempty)
  from Cons.IH [OF g1 n1] obtain d' where
    d': "for_each (\<lambda>platform d.
            bind_result (getitem d ''platforms_raw'') (\<lambda>raw.
              Inr (setitem d (platform_col platform)
                     (map (\<lambda>v. Num (of_nat (has_platform L platform v))) raw)))) ps ?d1 = Inr d'"
        "getitem d' ''platforms_raw'' = Inr raw" "nrows d' = length raw"
        "\<forall>k. k \<notin> platform_col ` set ps \<longrightarrow> getitem d' k = getitem ?d1 k"
        "distinct (map platform_col ps) \<longrightarrow>
                (\<forall>q \<in> set ps. getitem d' (platform_col q)
                    = Inr (map (\<lambda>v. Num (of_nat (has_platform L q v))) raw))"
    by (elim exE conjE)
  have run: "for_each (\<lambda>platform d.
            bind_result (getitem d ''platforms_raw'') (\<lambda>raw.
              Inr (setitem d (platform_col platform)
                     (map (\<lambda>v. Num (of_nat (has_platform L platform v))) raw)))) (p # ps) d = Inr d'"
    using d'(1) Cons.prems(1) by simp
  have frame: "\<forall>k. k \<notin> platform_col ` set (p # ps) \<longrightarrow> getitem d' k = getitem d k"
    using d'(4) by (auto simp: getitem_setitem)
  have cols: "distinct (map platform_col (p # ps)) \<longrightarrow>
                (\<forall>q \<in> set (p # ps). getitem d' (platform_col q)
                    = Inr (map (\<lambda>v. Num (of_nat (has_platform L q v))) raw))"
  proof (intro impI ballI)
    fix q assume dist: "distinct (map platform_col (p # ps))" and q: "q \<in> set (p # ps)"
    show "getitem d' (platform_col q) = Inr (map (\<lambda>v. Num (of_nat (has_platform L q v))) raw)"
    proof (cases "q \<in> set ps")
      case True
      with d'(5) dist show ?thesis by simp
    next
      case False
      with q have qp: "q = p" by simp
      from dist have "platform_col p \<notin> platform_col ` set ps" by simp
      with d'(4) have "getitem d' (platform_col p) = getitem ?d1 (platform_col p)" by blast
      then show ?thesis unfolding qp by (simp add: getitem_setitem)
    qed
  qed
  from run d'(2,3) frame cols show ?case by blast
qed

lemma getitems_map:
  "(\<And>c. c \<in> set cs \<Longrightarrow> getitem d c = Inr (f c)) \<Longrightarrow> getitems d cs = Inr (map f cs)"
  by (induction cs) simp_all

lemma sum_axis1_rows:
  "sum_axis1 (length raw) (map (\<lambda>p. map (f p) raw) ps)
     = map (\<lambda>v. Num (\<Sum>p\<leftarrow>ps. cell_value (f p v))) raw"
proof -
  have "foldr (\<lambda>col acc. map2 (\<lambda>c a. cell_value c + a) col acc) (map (\<lambda>p. map (f p) raw) ps)
          (replicate (length raw) 0)
        = map (\<lambda>v. \<Sum>p\<leftarrow>ps. cell_value (f p v)) raw"
  proof (induction ps)
    case Nil
    show ?case by (simp add: map_replicate_const)
  next
    case (Cons p ps)
    have "map2 (\<lambda>c a. cell_value c + a) (map (f p) raw)
            (map (\<lambda>v. \<Sum>p\<leftarrow>ps. cell_value (f p v)) raw)
          = map (\<lambda>v. cell_value (f p v) + (\<Sum>p\<leftarrow>ps. cell_value (f p v))) raw"
      by (induction raw) simp_all
    with Cons show ?case by simp
  qed
  then show ?thesis by (simp add: sum_axis1_def)
qed

lemma getitems_length: "getitems d cs = Inr vs \<Longrightarrow> length vs = length cs"
  by (induction cs arbitrary: vs) (auto simp: bind_result_def split: sum.splits)

lemma getitems_nth:
  "getitems d cs = Inr vs \<Longrightarrow> i < length cs \<Longrightarrow> getitem d (cs ! i) = Inr (vs ! i)"
proof (induction cs arbitrary: vs i)
  case Nil
  then show ?case by simp
next
  case (Cons c cs)
  then show ?case
    by (cases i) (auto simp: bind_result_def split: sum.splits)
qed

lemma cell_value_Num [simp]: "cell_value (Num r) = r"
  by (simp add: cell_value_def)

lemma has_platform_NA [simp]: "has_platform L p NA = 0"
  by (simp add: has_platform_def isna_def)

text \<open>
  Claim C8. On a table whose columns are as long as \<open>platforms_raw\<close>,
  \<open>parse_platforms\<close> stores for each of the 9 platforms the flag column computed by
  \<open>has_platform\<close>, and in every row \<open>platform_count\<close> is the sum of the 9 flags of
  that row; in a row whose raw text is missing all 9 flags and the count are 0. The flag
  is 1 exactly when the value is present and the lower-cased platform name is a substring
  of the lower-cased text.
\<close>

theorem C8_platform_count:
  assumes raw: "getitem df ''platforms_raw'' = Inr raw"
    and rect: "\<forall>col \<in> snd ` set df. length col = length raw"
  shows "(\<exists>df' flags cnt.
           parse_platforms L df = Inr df'
           \<and> getitems df' (map platform_col PLATFORMS) = Inr flags
           \<and> flags = map (\<lambda>p. map (\<lambda>v. Num (of_nat (has_platform L p v))) raw) PLATFORMS
           \<and> getitem df' ''platform_count'' = Inr cnt \<and> length cnt = length raw
           \<and> (\<forall>i < length raw.
                 cnt ! i = Num (\<Sum>col\<leftarrow>flags. cell_value (col ! i))
                 \<and> (raw ! i = NA \<longrightarrow> cnt ! i = Num 0 \<and> (\<forall>col \<in> set flags. col ! i = Num 0))))
         \<and> (\<forall>p v. has_platform L p v =
                (if v = NA then 0 else if sublist (lower p) (lower (py_str L v)) then 1 else 0))"
proof (rule conjI)
  show "\<forall>p v. has_platform L p v =
                (if v = NA then 0 else if sublist (lower p) (lower (py_str L v)) then 1 else 0)"
    by (simp add: has_platform_def isna_def contains_iff_sublist)
next
  define flag where "flag = (\<lambda>p v. Num (of_nat (has_platform L p v)))"
  define flags where "flags = map (\<lambda>p. map (flag p) raw) PLATFORMS"
  define cnt where "cnt = map (\<lambda>v. Num (\<Sum>p\<leftarrow>PLATFORMS. cell_value (flag p v))) raw"
  from raw have ne: "df \<noteq> []" by (rule getitem_nonempty)
  then obtain k v rest where df: "df = (k, v) # rest" by (cases df) auto
  with rect have n: "nrows df = length raw" by (simp add: nrows_def)
  from platform_loop [OF raw n, of L PLATFORMS] obtain d where
    d: "for_each (\<lambda>platform d.
            bind_result (getitem d ''platforms_raw'') (\<lambda>raw.
              Inr (setitem d (platform_col platform)
                     (map (\<lambda>v. Num (of_nat (has_platform L platform v))) raw)))) PLATFORMS df = Inr d"
       "nrows d = length raw"
       "distinct (map platform_col PLATFORMS) \<longrightarrow>
                (\<forall>p \<in> set PLATFORMS. getitem d (platform_col p)
                    = Inr (map (\<lambda>v. Num (of_nat (has_platform L p v))) raw))"
    by (elim exE conjE)
  from d(3) platform_cols_distinct
  have cols: "\<And>p. p \<in> set PLATFORMS \<Longrightarrow> getitem d (platform_col p) = Inr (map (flag p) raw)"
    by (simp add: flag_def)
  have "getitems d (map platform_col PLATFORMS) = Inr (map (\<lambda>p. map (flag p) raw) PLATFORMS)"
  proof -
    have "getitems d (map platform_col ps) = Inr (map (\<lambda>p. map (flag p) raw) ps)"
      if "set ps \<subseteq> set PLATFORMS" for ps
      using that by (induction ps) (simp_all add: cols)
    then show ?thesis by simp
  qed
  then have gs: "getitems d (map platform_col PLATFORMS) = Inr flags"
    by (simp add: flags_def)
  define df' where "df' = setitem d ''platform_count'' cnt"
  have sum: "sum_axis1 (nrows d) flags = cnt"
    unfolding d(2) flags_def cnt_def by (rule sum_axis1_rows)
  have run: "parse_platforms L df = Inr df'"
    unfolding parse_platforms_def df'_def by (simp add: d(1) gs sum)
  have g': "getitems df' (map platform_col PLATFORMS) = Inr flags"
  proof -
    have "getitems df' (map platform_col ps) = getitems d (map platform_col ps)"
      if "set ps \<subseteq> set PLATFORMS" for ps
      using that
      by (induction ps) (simp_all add: df'_def getitem_setitem platform_col_neq_count)
    with gs show ?thesis by simp
  qed
  have c': "getitem df' ''platform_count'' = Inr cnt"
    by (simp add: df'_def getitem_setitem)
  have len: "length cnt = length raw"
    by (simp add: cnt_def)
  have rows: "cnt ! i = Num (\<Sum>col\<leftarrow>flags. cell_value (col ! i))
                 \<and> (raw ! i = NA \<longrightarrow> cnt ! i = Num 0 \<and> (\<forall>col \<in> set flags. col ! i = Num 0))"
    if i: "i < length raw" for i
  proof -
    have "(\<Sum>col\<leftarrow>flags. cell_value (col ! i)) = (\<Sum>p\<leftarrow>PLATFORMS. cell_value (flag p (raw ! i)))"
      using i by (simp add: flags_def o_def)
    then have 1: "cnt ! i = Num (\<Sum>col\<leftarrow>flags. cell_value (col ! i))"
      using i by (simp add: cnt_def)
    have 2: "cnt ! i = Num 0 \<and> (\<forall>col \<in> set flags. col ! i = Num 0)" if "raw ! i = NA"
      using i that by (auto simp: cnt_def flags_def flag_def)
    from 1 2 show ?thesis by blast
  qed
  show "\<exists>df' flags cnt.
           parse_platforms L df = Inr df'
           \<and> getitems df' (map platform_col PLATFORMS) = Inr flags
           \<and> flags = map (\<lambda>p. map (\<lambda>v. Num (of_nat (has_platform L p v))) raw) PLATFORMS
           \<and> getitem df' ''platform_count'' = Inr cnt \<and> length cnt = length raw
           \<and> (\<forall>i < length raw.
                 cnt ! i = Num (\<Sum>col\<leftarrow>flags. cell_value (col ! i))
                 \<and> (raw ! i = NA \<longrightarrow> cnt ! i = Num 0 \<and> (\<forall>col \<in> set flags. col ! i = Num 0)))"
  proof (intro exI [of _ df'] exI [of _ flags] exI [of _ cnt] conjI)
    show "flags = map (\<lambda>p. map (\<lambda>v. Num (of_nat (has_platform L p v))) raw) PLATFORMS"
      by (simp add: flags_def flag_def)
    show "\<forall>i < length raw.
                 cnt ! i = Num (\<Sum>col\<leftarrow>flags. cell_value (col ! i))
                 \<and> (raw ! i = NA \<longrightarrow> cnt ! i = Num 0 \<and> (\<forall>col \<in> set flags. col ! i = Num 0))"
      using rows by blast
  qed (rule run g' c' len)+
qed

text \<open>C8 on the answers "Instagram, YouTube" and a missing answer.\<close>

theorem C8_platform_count_witness:
  "\<exists>df'. parse_platforms example_pylib [(''platforms_raw'', [Str ''Instagram, YouTube'', NA])] = Inr df'
      \<and> getitem df' ''platform_instagram'' = Inr [Num 1, Num 0]
      \<and> getitem df' ''platform_facebook'' = Inr [Num 0, Num 0]
      \<and> getitem df' ''platform_count'' = Inr [Num 2, Num 0]"
proof -
  define raw where "raw = [Str ''Instagram, YouTube'', NA]"
  define df where "df = [(''platforms_raw'', raw)]"
  have g: "getitem df ''platforms_raw'' = Inr raw"
    by (simp add: getitem_def df_def)
  have rect: "\<forall>col \<in> snd ` set df. length col = length raw"
    by (simp add: df_def)
  from C8_platform_count [OF g rect, of example_pylib, THEN conjunct1]
  obtain df' flags cnt where
    r: "parse_platforms example_pylib df = Inr df'"
       "getitems df' (map platform_col PLATFORMS) = Inr flags"
       "flags = map (\<lambda>p. map (\<lambda>v. Num (of_nat (has_platform example_pylib p v))) raw) PLATFORMS"
       "getitem df' ''platform_count'' = Inr cnt" "length cnt = length raw"
       "\<forall>i < length raw.
                 cnt ! i = Num (\<Sum>col\<leftarrow>flags. cell_value (col ! i))
                 \<and> (raw ! i = NA \<longrightarrow> cnt ! i = Num 0 \<and> (\<forall>col \<in> set flags. col ! i = Num 0))"
    by (elim exE conjE)
  have fl: "flags = [[Num 0, Num 0], [Num 0, Num 0], [Num 1, Num 0], [Num 1, Num 0],
                     [Num 0, Num 0], [Num 0, Num 0], [Num 0, Num 0], [Num 0, Num 0], [Num 0, Num 0]]"
    unfolding r(3) raw_def by code_simp
  have cols: "map platform_col PLATFORMS =
      [''platform_facebook'', ''platform_twitter'', ''platform_instagram'', ''platform_youtube'',
       ''platform_snapchat'', ''platform_discord'', ''platform_reddit'', ''platform_pinterest'',
       ''platform_tiktok'']"
    by (simp add: PLATFORMS_def platform_col_def lower_def lower_char_def
        ascii_uppercase_def ascii_lowercase_def latin1_uppercase_def latin1_lowercase_def)
  have gs: "getitem df' ''platform_instagram'' = Inr [Num 1, Num 0]
      \<and> getitem df' ''platform_facebook'' = Inr [Num 0, Num 0]"
    using getitems_nth [OF r(2), of 2] getitems_nth [OF r(2), of 0]
    unfolding cols fl by simp
  have c0: "cnt ! 0 = Num 2" using r(6) [rule_format, of 0] by (simp add: raw_def fl)
  have c1: "cnt ! 1 = Num 0" using r(6) [rule_format, of 1] by (simp add: raw_def fl)
  from r(5) c0 c1 have cnt: "cnt = [Num 2, Num 0]"
    by (cases cnt; cases "tl cnt") (auto simp: raw_def)
  show ?thesis
    using r(1,4) gs unfolding cnt df_def raw_def by (intro exI [of _ df']) simp
qed

subsection \<open>Segment plots\<close>

lemma value_count_card:
  "value_count col b = card {i. i < length col \<and> col ! i = Str b}"
  by (simp add: value_count_def length_filter_conv_card)

lemma segment_plot_of_labels:
  assumes "segment_plot_of df segment_col candidates = Inr plot"
  shows "\<exists>seg. getitem df segment_col = Inr seg
           \<and> tick_labels plot = filter (\<lambda>b. 10 \<le> value_count seg b) candidates
           \<and> length (box_data plot) = length (tick_labels plot)"
proof -
  from assms obtain seg where
    seg: "getitem df segment_col = Inr seg"
    and rest: "(let valid = filter (\<lambda>b. 10 \<le> value_count seg b) candidates
       in if valid = [] then Inl (LibraryError ''ValueError in ax.boxplot'')
          else bind_result (getitem df ''low_mood_freq'') (\<lambda>mood.
            Inr \<lparr>tick_labels = valid,
                 box_data = map (\<lambda>b. present (map (\<lambda>(s, m). numeric_value m)
                                                (filter (\<lambda>(s, m). s = Str b) (zip seg mood))))
                                valid\<rparr>)) = Inr plot"
    by (auto simp: segment_plot_of_def bind_result_eq_Inr)
  define valid where "valid = filter (\<lambda>b. 10 \<le> value_count seg b) candidates"
  have "tick_labels plot = valid \<and> length (box_data plot) = length (tick_labels plot)"
  proof (cases "valid = []")
    case True
    with rest have False
      by (simp add: valid_def [symmetric])
    then show ?thesis ..
  next
    case False
    with rest obtain mood where
      "plot = \<lparr>tick_labels = valid,
                 box_data = map (\<lambda>b. present (map (\<lambda>(s, m). numeric_value m)
                                                (filter (\<lambda>(s, m). s = Str b) (zip seg mood))))
                                valid\<rparr>"
      by (auto simp: valid_def [symmetric] bind_result_eq_Inr)
    then show ?thesis by simp
  qed
  with seg show ?thesis unfolding valid_def by blast
qed

text \<open>
  Claim C9. When the script runs to its end, every subgroup drawn in the two segment
  plots (by age band and by grouped gender) has at least 10 rows among the rows included
  in the analysis, and each plot has one box for each of its labels.
\<close>

theorem C9_segments:
  assumes "run_eda S R df_full = Inr out"
  shows "\<exists>df ages genders.
           load_analysis_rows df_full = Inr df
           \<and> getitem df ''age_band'' = Inr ages
           \<and> getitem df ''gender_grouped'' = Inr genders
           \<and> (\<forall>b \<in> set (tick_labels (segment_mood_by_age out)).
                 10 \<le> card {i. i < length ages \<and> ages ! i = Str b})
           \<and> (\<forall>g \<in> set (tick_labels (segment_mood_by_gender out)).
                 10 \<le> card {i. i < length genders \<and> genders ! i = Str g})
           \<and> length (box_data (segment_mood_by_age out))
                = length (tick_labels (segment_mood_by_age out))
           \<and> length (box_data (segment_mood_by_gender out))
                = length (tick_labels (segment_mood_by_gender out))"
proof -
  from assms obtain df df1 where
    load: "load_analysis_rows df_full = Inr df"
    and asserts: "for_each assert_likert LIKERT_COLUMNS df = Inr df1"
    and rest: "bind_result (hypothesis_testing S df1) (\<lambda>results.
     bind_result (platform_usage df1) (\<lambda>usage.
     bind_result (scatter R (seed R 42) df1 ''purposeless_use'' ''low_mood_freq'') (\<lambda>(h2, g).
     bind_result (scatter R g df1 ''restless_without_sm'' ''sleep_issues'') (\<lambda>(h5, g').
     bind_result (segment_plot_of df1 ''age_band'' [''<18'', ''18-24'', ''25-34'', ''35-44'', ''45+''])
       (\<lambda>by_age.
     bind_result (segment_plot_of df1 ''gender_grouped'' [''Male'', ''Female'']) (\<lambda>by_gender.
       Inr \<lparr>hypothesis_results = results,
            h2_purposeless_vs_mood = h2,
            h5_restless_vs_sleep = h5,
            segment_mood_by_age = by_age,
            segment_mood_by_gender = by_gender\<rparr>)))))) = Inr out"
    unfolding run_eda_def bind_result_eq_Inr by blast
  from asserts have df1: "df1 = df" by (rule for_each_assert_likert)
  from rest obtain results h2 g h5 g' by_age by_gender where
    age: "segment_plot_of df ''age_band'' [''<18'', ''18-24'', ''25-34'', ''35-44'', ''45+''] = Inr by_age"
    and gender: "segment_plot_of df ''gender_grouped'' [''Male'', ''Female''] = Inr by_gender"
    and out: "out = \<lparr>hypothesis_results = results,
            h2_purposeless_vs_mood = h2,
            h5_restless_vs_sleep = h5,
            segment_mood_by_age = by_age,
            segment_mood_by_gender = by_gender\<rparr>"
    unfolding df1 bind_result_eq_Inr by (auto simp: bind_result_eq_Inr)
  from segment_plot_of_labels [OF age] obtain ages where
    ages: "getitem df ''age_band'' = Inr ages"
      "tick_labels by_age = filter (\<lambda>b. 10 \<le> value_count ages b) [''<18'', ''18-24'', ''25-34'', ''35-44'', ''45+'']"
      "length (box_data by_age) = length (tick_labels by_age)"
    by (elim exE conjE)
  from segment_plot_of_labels [OF gender] obtain genders where
    genders: "getitem df ''gender_grouped'' = Inr genders"
      "tick_labels by_gender = filter (\<lambda>b. 10 \<le> value_count genders b) [''Male'', ''Female'']"
      "length (box_data by_gender) = length (tick_labels by_gender)"
    by (elim exE conjE)
  have a: "\<forall>b \<in> set (tick_labels (segment_mood_by_age out)).
                 10 \<le> card {i. i < length ages \<and> ages ! i = Str b}"
    unfolding out by (simp add: ages(2) value_count_card)
  have b: "\<forall>g \<in> set (tick_labels (segment_mood_by_gender out)).
                 10 \<le> card {i. i < length genders \<and> genders ! i = Str g}"
    unfolding out by (simp add: genders(2) value_count_card)
  have l1: "length (box_data (segment_mood_by_age out))
                = length (tick_labels (segment_mood_by_age out))"
    unfolding out by (simp add: ages(3))
  have l2: "length (box_data (segment_mood_by_gender out))
                = length (tick_labels (segment_mood_by_gender out))"
    unfolding out by (simp add: genders(3))
  show ?thesis
    by (rule exI [of _ df], rule exI [of _ ages], rule exI [of _ genders])
       (intro conjI load ages(1) genders(1) a b l1 l2)
qed

text \<open>C9 on the example table: the two respondents aged 45+ are not drawn.\<close>

theorem C9_segments_witness:
  "\<exists>out df ages.
     run_eda example_scipy example_rng example_clean_table = Inr out
     \<and> load_analysis_rows example_clean_table = Inr df
     \<and> getitem df ''age_band'' = Inr ages
     \<and> tick_labels (segment_mood_by_age out) = [''18-24'']
     \<and> 10 \<le> card {i. i < length ages \<and> ages ! i = Str ''18-24''}"
proof -
  have "case run_eda example_scipy example_rng example_clean_table of
          Inl e \<Rightarrow> False
        | Inr out \<Rightarrow> tick_labels (segment_mood_by_age out) = [''18-24'']"
    by code_simp
  then obtain out where
    run: "run_eda example_scipy example_rng example_clean_table = Inr out"
    and labels: "tick_labels (segment_mood_by_age out) = [''18-24'']"
    by (cases "run_eda example_scipy example_rng example_clean_table") simp_all
  from C9_segments [OF run] obtain df ages where
    r: "load_analysis_rows example_clean_table = Inr df"
       "getitem df ''age_band'' = Inr ages"
       "\<forall>b \<in> set (tick_labels (segment_mood_by_age out)).
                 10 \<le> card {i. i < length ages \<and> ages ! i = Str b}"
    by (elim exE conjE)
  from r(3) have "10 \<le> card {i. i < length ages \<and> ages ! i = Str ''18-24''}"
    unfolding labels by simp
  with run r(1,2) labels show ?thesis
    by (intro exI [of _ out] exI [of _ df] exI [of _ ages] conjI)
qed

text \<open>
  Two runs that end before a segment plot is drawn: without the platform columns the
  script ends at the first figure, and with no age band of 10 rows it ends in
  \<open>ax.boxplot\<close>.
\<close>

lemma run_eda_raises:
  "run_eda example_scipy example_rng
     (filter (\<lambda>(c, v). c \<notin> set PLATFORM_COLS) example_clean_table)
     = Inl (KeyError ''platform_facebook'')
   \<and> run_eda example_scipy example_rng (map (\<lambda>(c, v). (c, take 9 v)) example_clean_table)
     = Inl (LibraryError ''ValueError in ax.boxplot'')"
  by code_simp

subsection \<open>The group-difference test\<close>


subsection \<open>Randomness\<close>

lemma scatter_fails:
  "scatter R g df xcol ycol =
     (case getitem df xcol of
        Inl e \<Rightarrow> Inl e
      | Inr cx \<Rightarrow>
          (case getitem df ycol of
             Inl e \<Rightarrow> Inl e
           | Inr cy \<Rightarrow> Inr (zip (fst (jitter R g cx)) (fst (jitter R (snd (jitter R g cx)) cy)),
                              snd (jitter R (snd (jitter R g cx)) cy))))"
  by (simp add: scatter_def Let_def split: sum.splits prod.splits)

lemma run_eda_results:
  "map_sum id hypothesis_results (run_eda S R df_full) =
     bind_result (load_analysis_rows df_full) (\<lambda>df.
     bind_result (for_each assert_likert LIKERT_COLUMNS df) (\<lambda>df.
     bind_result (hypothesis_testing S df) (\<lambda>results.
     bind_result (platform_usage df) (\<lambda>usage.
     bind_result (getitem df ''purposeless_use'') (\<lambda>x2.
     bind_result (getitem df ''low_mood_freq'') (\<lambda>y2.
     bind_result (getitem df ''restless_without_sm'') (\<lambda>x5.
     bind_result (getitem df ''sleep_issues'') (\<lambda>y5.
     bind_result (segment_plot_of df ''age_band'' [''<18'', ''18-24'', ''25-34'', ''35-44'', ''45+''])
       (\<lambda>by_age.
     bind_result (segment_plot_of df ''gender_grouped'' [''Male'', ''Female'']) (\<lambda>by_gender.
       Inr results))))))))))"
  unfolding run_eda_def scatter_fails
  by (simp add: bind_result_def split: sum.splits prod.splits)

lemma hypothesis_testing_ids:
  "hypothesis_testing S df = Inr results \<Longrightarrow>
     map hypothesis_id results = [''H1'', ''H2'', ''H3'', ''H4'', ''H5'']"
  by (auto simp: hypothesis_testing_def bind_result_eq_Inr make_result_def)

text \<open>
  Claim C10. The hypothesis results of a run, and whether the run fails, are the same for
  every random number generator: the generator is used for the jitter of the two scatter
  plots only. A run that ends gives the five results H1 to H5, and with any other
  generator it ends with the same five results. The statistics themselves are functions
  of the data (the parameters \<open>spearmanr\<close> and \<open>kruskal\<close>).
\<close>

theorem C10_deterministic:
  "map_sum id hypothesis_results (run_eda S R1 df_full)
     = map_sum id hypothesis_results (run_eda S R2 df_full)
   \<and> (\<forall>out. run_eda S R1 df_full = Inr out \<longrightarrow>
         map hypothesis_id (hypothesis_results out) = [''H1'', ''H2'', ''H3'', ''H4'', ''H5'']
         \<and> (\<exists>out'. run_eda S R2 df_full = Inr out'
               \<and> hypothesis_results out' = hypothesis_results out))"
proof (intro conjI allI impI)
  show eq: "map_sum id hypothesis_results (run_eda S R1 df_full)
     = map_sum id hypothesis_results (run_eda S R2 df_full)"
    by (simp only: run_eda_results)
  fix out assume run: "run_eda S R1 df_full = Inr out"
  then have "map_sum id hypothesis_results (run_eda S R1 df_full) = Inr (hypothesis_results out)"
    by simp
  then obtain df results where
    "hypothesis_testing S df = Inr results" "results = hypothesis_results out"
    unfolding run_eda_results by (auto simp: bind_result_eq_Inr)
  then show "map hypothesis_id (hypothesis_results out) = [''H1'', ''H2'', ''H3'', ''H4'', ''H5'']"
    using hypothesis_testing_ids by blast
  from eq run have "map_sum id hypothesis_results (run_eda S R2 df_full) = Inr (hypothesis_results out)"
    by simp
  then show "\<exists>out'. run_eda S R2 df_full = Inr out'
               \<and> hypothesis_results out' = hypothesis_results out"
    by (cases "run_eda S R2 df_full") auto
qed

text \<open>
  C10 on the example table with two generators: the results agree, the points of the
  scatter plot differ.
\<close>

theorem C10_deterministic_witness:
  "\<exists>out out'.
     run_eda example_scipy example_rng example_clean_table = Inr out
     \<and> run_eda example_scipy example_rng_high example_clean_table = Inr out'
     \<and> hypothesis_results out' = hypothesis_results out
     \<and> map hypothesis_id (hypothesis_results out) = [''H1'', ''H2'', ''H3'', ''H4'', ''H5'']
     \<and> h2_purposeless_vs_mood out' \<noteq> h2_purposeless_vs_mood out"
proof -
  have "case run_eda example_scipy example_rng example_clean_table of
          Inl e \<Rightarrow> False
        | Inr out \<Rightarrow>
            (case run_eda example_scipy example_rng_high example_clean_table of
               Inl e \<Rightarrow> False
             | Inr out' \<Rightarrow> h2_purposeless_vs_mood out' \<noteq> h2_purposeless_vs_mood out)"
    by code_simp
  then obtain out out0 where
    run: "run_eda example_scipy example_rng example_clean_table = Inr out"
    and run0: "run_eda example_scipy example_rng_high example_clean_table = Inr out0"
    and differ: "h2_purposeless_vs_mood out0 \<noteq> h2_purposeless_vs_mood out"
    by (cases "run_eda example_scipy example_rng example_clean_table";
        cases "run_eda example_scipy example_rng_high example_clean_table") simp_all
  from C10_deterministic [of example_scipy example_rng example_clean_table example_rng_high,
      THEN conjunct2, rule_format, OF run]
  obtain out' where
    ids: "map hypothesis_id (hypothesis_results out) = [''H1'', ''H2'', ''H3'', ''H4'', ''H5'']"
    and run': "run_eda example_scipy example_rng_high example_clean_table = Inr out'"
    and same: "hypothesis_results out' = hypothesis_results out"
    by (elim exE conjE)
  from run0 run' have "out0 = out'" by simp
  with differ have d: "h2_purposeless_vs_mood out' \<noteq> h2_purposeless_vs_mood out" by simp
  show ?thesis
    by (rule exI [of _ out], rule exI [of _ out']) (intro conjI run run' same ids d)
qed

text \<open>
  The thresholds of the interpretations are the float64 values of the literals: the
  float64 value of 0.3 is a moderate correlation and that of 0.06 a moderate effect.
\<close>

lemma interpret_at_literals:
  "interpret_rho (Some (Fin float_0_30)) = ''moderate''
   \<and> interpret_epsilon (Some (Fin float_0_06)) = ''moderate''"
  by code_simp

subsection \<open>Likert validation and the pipeline\<close>

lemma getitem_Inr_columns: "getitem d c = Inr col \<Longrightarrow> c \<in> set (columns d)"
  by (auto simp: getitem_def columns_def split: option.splits dest: map_of_SomeD intro: rev_image_eqI)

lemma below_iff:
  "ps \<noteq> [] \<and> Min (set ps) < (a :: 'a :: linorder) \<longleftrightarrow> (\<exists>v \<in> set ps. v < a)"
  by (cases "ps = []") (simp_all add: Min_less_iff)

lemma above_iff:
  "ps \<noteq> [] \<and> (a :: 'a :: linorder) < Max (set ps) \<longleftrightarrow> (\<exists>v \<in> set ps. a < v)"
  by (cases "ps = []") (simp_all add: Max_gr_iff)

lemma is_likert_range: "is_likert v \<Longrightarrow> \<not> v < Fin 1 \<and> \<not> Fin 5 < v \<and> is_int64 v"
  by (cases v) (auto simp: is_likert_def is_int64_def less_float64_def less_eq_float64_def)

lemma validate_column_bad:
  assumes "getitem d c = Inr col"
    and "\<exists>v \<in> set (present (map (to_numeric L) col)). v < Fin 1 \<or> Fin 5 < v"
  shows "(\<exists>m. validate_likert_column L c d = Inl (LikertBelow c m) \<and> m < Fin 1)
         \<or> (\<exists>m. validate_likert_column L c d = Inl (LikertAbove c m) \<and> Fin 5 < m)"
proof -
  let ?ps = "present (map (to_numeric L) col)"
  from assms(1) have c: "c \<in> set (columns d)" by (rule getitem_Inr_columns)
  show ?thesis
  proof (cases "\<exists>v \<in> set ?ps. v < Fin 1")
    case True
    then have b: "?ps \<noteq> [] \<and> Min (set ?ps) < Fin 1" by (simp only: below_iff)
    then have "validate_likert_column L c d = Inl (LikertBelow c (Min (set ?ps)))"
      by (simp add: validate_likert_column_def c assms(1) Let_def)
    with b show ?thesis by blast
  next
    case False
    with assms(2) have "\<exists>v \<in> set ?ps. Fin 5 < v" by blast
    then have a: "?ps \<noteq> [] \<and> Fin 5 < Max (set ?ps)" by (simp only: above_iff)
    from False have nb: "\<not> (?ps \<noteq> [] \<and> Min (set ?ps) < Fin 1)" by (simp add: below_iff)
    have "validate_likert_column L c d = Inl (LikertAbove c (Max (set ?ps)))"
      using a nb by (simp add: validate_likert_column_def c assms(1) Let_def)
    with a show ?thesis by blast
  qed
qed

lemma validate_column_ok:
  assumes "getitem d c = Inr col"
    and "\<forall>v \<in> set (present (map (to_numeric L) col)). is_likert v"
  shows "validate_likert_column L c d = Inr (setitem d c (map float_cell (map (to_numeric L) col)))"
proof -
  let ?ps = "present (map (to_numeric L) col)"
  from assms(1) have c: "c \<in> set (columns d)" by (rule getitem_Inr_columns)
  from assms(2) have "\<not> (\<exists>v \<in> set ?ps. v < Fin 1)" "\<not> (\<exists>v \<in> set ?ps. Fin 5 < v)"
    using is_likert_range by blast+
  then have nb: "\<not> (?ps \<noteq> [] \<and> Min (set ?ps) < Fin 1)"
    and na: "\<not> (?ps \<noteq> [] \<and> Fin 5 < Max (set ?ps))"
    by (simp_all only: below_iff above_iff not_False_eq_True)
  from assms(2) have w: "list_all is_int64 ?ps"
    using is_likert_range by (auto simp: list_all_iff)
  then have "to_Int64 (map (to_numeric L) col) = Inr (map float_cell (map (to_numeric L) col))"
    by (simp add: to_Int64_def)
  then show ?thesis
    using nb na by (simp add: validate_likert_column_def c assms(1) Let_def)
qed

lemma validate_column_frame:
  "validate_likert_column L c d = Inr d' \<Longrightarrow> k \<noteq> c \<Longrightarrow> getitem d' k = getitem d k"
  by (auto simp: validate_likert_column_def bind_result_eq_Inr Let_def getitem_setitem
      split: if_splits)

lemma validate_loop_fails:
  assumes "c \<in> set cs" and "getitem d c = Inr col"
    and "\<exists>v \<in> set (present (map (to_numeric L) col)). v < Fin 1 \<or> Fin 5 < v"
  shows "\<exists>e. for_each (validate_likert_column L) cs d = Inl e"
  using assms
proof (induction cs arbitrary: d)
  case Nil
  then show ?case by simp
next
  case (Cons x cs)
  show ?case
  proof (cases "validate_likert_column L x d")
    case (Inl e)
    then show ?thesis by simp
  next
    case (Inr d')
    have xc: "x \<noteq> c"
    proof
      assume "x = c"
      with validate_column_bad [OF Cons.prems(2,3)] Inr show False by auto
    qed
    with Cons.prems(1) have "c \<in> set cs" by simp
    moreover from validate_column_frame [OF Inr] xc Cons.prems(2)
    have "getitem d' c = Inr col" by simp
    ultimately have "\<exists>e. for_each (validate_likert_column L) cs d' = Inl e"
      using Cons.IH Cons.prems(3) by blast
    with Inr show ?thesis by simp
  qed
qed

lemma validate_loop_first:
  assumes "distinct (pre @ [c])"
    and "\<forall>c' \<in> set pre. \<exists>col'. getitem d c' = Inr col'
           \<and> (\<forall>v \<in> set (present (map (to_numeric L) col')). is_likert v)"
    and "getitem d c = Inr col"
    and "\<exists>v \<in> set (present (map (to_numeric L) col)). v < Fin 1 \<or> Fin 5 < v"
  shows "(\<exists>m. for_each (validate_likert_column L) (pre @ c # post) d = Inl (LikertBelow c m) \<and> m < Fin 1)
         \<or> (\<exists>m. for_each (validate_likert_column L) (pre @ c # post) d = Inl (LikertAbove c m) \<and> Fin 5 < m)"
  using assms
proof (induction pre arbitrary: d)
  case Nil
  from validate_column_bad [OF Nil.prems(3,4)] show ?case by auto
next
  case (Cons x pre)
  from Cons.prems(2) obtain colx where
    x: "getitem d x = Inr colx"
       "\<forall>v \<in> set (present (map (to_numeric L) colx)). is_likert v"
    by auto
  let ?d' = "setitem d x (map float_cell (map (to_numeric L) colx))"
  have step: "validate_likert_column L x d = Inr ?d'"
    by (rule validate_column_ok [OF x])
  from Cons.prems(1) have dist: "distinct (pre @ [c])" and xpre: "x \<notin> set pre" and xc: "x \<noteq> c"
    by auto
  have pre': "\<forall>c' \<in> set pre. \<exists>col'. getitem ?d' c' = Inr col'
           \<and> (\<forall>v \<in> set (present (map (to_numeric L) col')). is_likert v)"
    using Cons.prems(2) xpre by (auto simp: getitem_setitem)
  have c': "getitem ?d' c = Inr col"
    using Cons.prems(3) xc by (simp add: getitem_setitem)
  from Cons.IH [OF dist pre' c' Cons.prems(4)] step show ?case by simp
qed

lemma validate_loop_frame:
  "for_each (validate_likert_column L) cs d = Inr d' \<Longrightarrow> k \<notin> set cs
     \<Longrightarrow> getitem d' k = getitem d k"
proof (induction cs arbitrary: d)
  case Nil
  then show ?case by simp
next
  case (Cons x cs)
  from Cons.prems(1) obtain d1 where
    d1: "validate_likert_column L x d = Inr d1" "for_each (validate_likert_column L) cs d1 = Inr d'"
    by (auto simp: bind_result_eq_Inr)
  from Cons.prems(2) have "k \<noteq> x" "k \<notin> set cs" by auto
  with Cons.IH [OF d1(2)] validate_column_frame [OF d1(1)] show ?case by simp
qed

lemma validate_loop_ok:
  assumes "distinct cs"
    and "\<forall>c' \<in> set cs. \<exists>col'. getitem d c' = Inr col'
           \<and> (\<forall>v \<in> set (present (map (to_numeric L) col')). is_likert v)"
  shows "\<exists>d'. for_each (validate_likert_column L) cs d = Inr d'
           \<and> (\<forall>c \<in> set cs. \<forall>col. getitem d c = Inr col \<longrightarrow>
                  getitem d' c = Inr (map float_cell (map (to_numeric L) col)))"
  using assms
proof (induction cs arbitrary: d)
  case Nil
  then show ?case by simp
next
  case (Cons x cs)
  from Cons.prems(2) obtain colx where
    x: "getitem d x = Inr colx"
       "\<forall>v \<in> set (present (map (to_numeric L) colx)). is_likert v"
    by auto
  let ?d1 = "setitem d x (map float_cell (map (to_numeric L) colx))"
  have step: "validate_likert_column L x d = Inr ?d1"
    by (rule validate_column_ok [OF x])
  from Cons.prems(1) have dist: "distinct cs" and xcs: "x \<notin> set cs" by auto
  have "\<forall>c' \<in> set cs. \<exists>col'. getitem ?d1 c' = Inr col'
           \<and> (\<forall>v \<in> set (present (map (to_numeric L) col')). is_likert v)"
    using Cons.prems(2) xcs by (auto simp: getitem_setitem)
  from Cons.IH [OF dist this] obtain d' where
    d': "for_each (validate_likert_column L) cs ?d1 = Inr d'"
    and conv: "\<forall>c \<in> set cs. \<forall>col. getitem ?d1 c = Inr col \<longrightarrow>
                  getitem d' c = Inr (map float_cell (map (to_numeric L) col))"
    by (elim exE conjE)
  have run: "for_each (validate_likert_column L) (x # cs) d = Inr d'"
    using step d' by simp
  have "getitem d' c = Inr (map float_cell (map (to_numeric L) col))"
    if c: "c \<in> set (x # cs)" and col: "getitem d c = Inr col" for c col
  proof (cases "c = x")
    case True
    from validate_loop_frame [OF d' xcs] have "getitem d' x = getitem ?d1 x" .
    with True col x(1) show ?thesis by (simp add: getitem_setitem)
  next
    case False
    with c have "c \<in> set cs" by simp
    moreover from False col have "getitem ?d1 c = Inr col" by (simp add: getitem_setitem)
    ultimately show ?thesis using conv by blast
  qed
  with run show ?case by blast
qed

lemma assign_loop:
  assumes "getitem d src = Inr raw" and "src \<notin> name ` set xs"
  shows "\<exists>d'. for_each (\<lambda>x d. bind_result (getitem d src) (\<lambda>raw. Inr (setitem d (name x) (f x raw)))) xs d
                = Inr d'
           \<and> (\<forall>k. k \<notin> name ` set xs \<longrightarrow> getitem d' k = getitem d k)
           \<and> (\<forall>x \<in> set xs. \<exists>v. getitem d' (name x) = Inr v)"
  using assms
proof (induction xs arbitrary: d)
  case Nil
  then show ?case by simp
next
  case (Cons x xs)
  let ?body = "\<lambda>x d. bind_result (getitem d src) (\<lambda>raw. Inr (setitem d (name x) (f x raw)))"
  let ?d1 = "setitem d (name x) (f x raw)"
  from Cons.prems(2) have nx: "src \<noteq> name x" and nxs: "src \<notin> name ` set xs" by auto
  have g1: "getitem ?d1 src = Inr raw"
    using Cons.prems(1) nx by (simp add: getitem_setitem)
  from Cons.IH [OF g1 nxs] obtain d' where
    d': "for_each ?body xs ?d1 = Inr d'"
        "\<forall>k. k \<notin> name ` set xs \<longrightarrow> getitem d' k = getitem ?d1 k"
        "\<forall>y \<in> set xs. \<exists>v. getitem d' (name y) = Inr v"
    by (elim exE conjE)
  have run: "for_each ?body (x # xs) d = Inr d'"
    using d'(1) Cons.prems(1) by simp
  have frame: "\<forall>k. k \<notin> name ` set (x # xs) \<longrightarrow> getitem d' k = getitem d k"
    using d'(2) by (auto simp: getitem_setitem)
  have ex: "\<forall>y \<in> set (x # xs). \<exists>v. getitem d' (name y) = Inr v"
  proof
    fix y assume y: "y \<in> set (x # xs)"
    show "\<exists>v. getitem d' (name y) = Inr v"
    proof (cases "name y \<in> name ` set xs")
      case True
      then obtain z where "z \<in> set xs" "name y = name z" by auto
      with d'(3) show ?thesis by auto
    next
      case False
      with y have "name y = name x" by auto
      moreover from False d'(2) have "getitem d' (name y) = getitem ?d1 (name y)" by blast
      ultimately show ?thesis by (simp add: getitem_setitem)
    qed
  qed
  from run frame ex show ?case by blast
qed

lemma getitems_ok:
  "\<forall>c \<in> set cs. \<exists>v. getitem d c = Inr v \<Longrightarrow> \<exists>vs. getitems d cs = Inr vs"
  by (induction cs) auto

lemma parse_platforms_frame:
  assumes "getitem d ''platforms_raw'' = Inr raw"
  shows "\<exists>d'. parse_platforms L d = Inr d'
           \<and> (\<forall>k. k \<noteq> ''platform_count'' \<and> k \<notin> platform_col ` set PLATFORMS
                  \<longrightarrow> getitem d' k = getitem d k)"
proof -
  have src: "''platforms_raw'' \<notin> platform_col ` set PLATFORMS"
    by (auto simp: platform_col_def)
  from assign_loop [OF assms src,
      where f = "\<lambda>p raw. map (\<lambda>v. Num (of_nat (has_platform L p v))) raw"]
  obtain d1 where
    d1: "for_each (\<lambda>platform d.
            bind_result (getitem d ''platforms_raw'') (\<lambda>raw.
              Inr (setitem d (platform_col platform)
                     (map (\<lambda>v. Num (of_nat (has_platform L platform v))) raw)))) PLATFORMS d = Inr d1"
        "\<forall>k. k \<notin> platform_col ` set PLATFORMS \<longrightarrow> getitem d1 k = getitem d k"
        "\<forall>p \<in> set PLATFORMS. \<exists>v. getitem d1 (platform_col p) = Inr v"
    by (elim exE conjE)
  from d1(3) have "\<forall>c \<in> set (map platform_col PLATFORMS). \<exists>v. getitem d1 c = Inr v"
    by auto
  from getitems_ok [OF this] obtain cols where
    cols: "getitems d1 (map platform_col PLATFORMS) = Inr cols" ..
  have run: "parse_platforms L d = Inr (setitem d1 ''platform_count'' (sum_axis1 (nrows d1) cols))"
    by (simp add: parse_platforms_def d1(1) cols)
  show ?thesis
    unfolding run using d1(2) by (auto simp: getitem_setitem)
qed

lemma parse_affiliations_frame:
  assumes "getitem d ''org_affiliations_raw'' = Inr raw"
  shows "\<exists>d'. parse_affiliations L d = Inr d'
           \<and> (\<forall>k. k \<notin> (\<lambda>(key, vs). affil_col key) ` set AFFILIATIONS
                  \<longrightarrow> getitem d' k = getitem d k)"
proof -
  have src: "''org_affiliations_raw'' \<notin> (\<lambda>(key, vs). affil_col key) ` set AFFILIATIONS"
    by (auto simp: affil_col_def)
  have body: "(\<lambda>(affil_key, affil_values) d.
         bind_result (getitem d ''org_affiliations_raw'') (\<lambda>raw.
           Inr (setitem d (affil_col affil_key)
                  (map (\<lambda>v. Num (of_nat (has_affiliation L affil_values v))) raw))))
      = (\<lambda>x d. bind_result (getitem d ''org_affiliations_raw'') (\<lambda>raw.
           Inr (setitem d ((\<lambda>(key, vs). affil_col key) x)
                  ((\<lambda>(key, vs) raw. map (\<lambda>v. Num (of_nat (has_affiliation L vs v))) raw) x raw))))"
    by (simp add: fun_eq_iff split_def)
  from assign_loop [OF assms src,
      where f = "\<lambda>(key, vs) raw. map (\<lambda>v. Num (of_nat (has_affiliation L vs v))) raw"]
  show ?thesis
    unfolding parse_affiliations_def body by blast
qed

lemma column_mapping_distinct: "distinct (map fst COLUMN_MAPPING)"
  by (simp add: COLUMN_MAPPING_def)

lemma rename_present:
  assumes "rename_columns raw = Inr df1" and "(k, k') \<in> set COLUMN_MAPPING"
  shows "\<exists>col. getitem df1 k' = Inr col"
proof -
  from assms(1) have none: "filter (\<lambda>k. k \<notin> set (columns raw)) (map fst COLUMN_MAPPING) = []"
    and df1: "df1 = map (\<lambda>(k, v). (case map_of COLUMN_MAPPING k of Some k' \<Rightarrow> k' | None \<Rightarrow> k, v)) raw"
    by (auto simp: rename_columns_def Let_def split: if_splits)
  from assms(2) have "k \<in> set (map fst COLUMN_MAPPING)" by force
  with none have "k \<in> set (columns raw)" by (auto simp: filter_empty_conv)
  then obtain v where kv: "(k, v) \<in> set raw" by (auto simp: columns_def)
  from assms(2) have "map_of COLUMN_MAPPING k = Some k'"
    by (rule map_of_is_SomeI [OF column_mapping_distinct])
  with kv have "(k', v) \<in> set df1" unfolding df1 by force
  then have "k' \<in> fst ` set df1" by force
  then have "map_of df1 k' \<noteq> None" by (simp add: map_of_eq_None_iff)
  then show ?thesis by (auto simp: getitem_def)
qed

lemma drop_timestamp_frame:
  "k \<noteq> ''timestamp'' \<Longrightarrow> getitem (drop_timestamp d) k = getitem d k"
  by (simp add: drop_timestamp_def getitem_drop_column)

lemma clean_age_frame:
  assumes "clean_age L d = Inr d'" and "k \<noteq> ''age'' \<and> k \<noteq> ''age_band''"
  shows "getitem d' k = getitem d k"
  using assms by (auto simp: clean_age_def bind_result_eq_Inr Let_def getitem_setitem)

lemma clean_age_ok:
  assumes "getitem d ''age'' = Inr raw" and "ages_castable L raw"
  shows "\<exists>d'. clean_age L d = Inr d'"
proof -
  have fin: "\<forall>x \<in> set (present (map (to_numeric L) raw)).
               \<exists>r. x = Fin r \<and> \<bar>round_half_even r\<bar> < 2 ^ 63"
  proof
    fix x assume "x \<in> set (present (map (to_numeric L) raw))"
    with assms(2) have "case x of Fin r \<Rightarrow> \<bar>round_half_even r\<bar> < 2 ^ 63 | _ \<Rightarrow> False"
      by (simp add: ages_castable_def list_all_iff)
    then show "\<exists>r. x = Fin r \<and> \<bar>round_half_even r\<bar> < 2 ^ 63"
      by (cases x) simp_all
  qed
  then have "\<forall>x \<in> set (present (map (to_numeric L) raw)). \<exists>r. x = Fin r"
    by blast
  from series_apply_get_age_band [OF this] obtain bands where
    "series_apply get_age_band (map (to_numeric L) raw) = Inr bands"
    by blast
  with to_Int64_rounded [OF fin] show ?thesis
    by (simp add: clean_age_def assms(1) Let_def)
qed

lemma clean_gender_frame:
  assumes "getitem d ''gender_raw'' = Inr raw"
  shows "\<exists>d'. clean_gender L d = Inr d'
           \<and> (\<forall>k. k \<noteq> ''gender_clean'' \<and> k \<noteq> ''gender_grouped'' \<and> k \<noteq> ''gender_raw''
                  \<longrightarrow> getitem d' k = getitem d k)"
  by (simp add: clean_gender_def assms Let_def getitem_setitem getitem_drop_column)

lemma clean_yes_no_frame:
  assumes "getitem d ''uses_social_media'' = Inr raw"
  shows "\<exists>d'. clean_yes_no L d = Inr d'
           \<and> (\<forall>k. k \<noteq> ''uses_social_media'' \<longrightarrow> getitem d' k = getitem d k)"
  by (simp add: clean_yes_no_def assms getitem_setitem)

lemma create_time_midpoint_frame:
  assumes "getitem d ''daily_time_band'' = Inr band"
  shows "\<exists>d' msgs. create_time_midpoint d = Inr (d', msgs)
           \<and> (\<forall>k. k \<noteq> ''daily_hours_midpoint'' \<longrightarrow> getitem d' k = getitem d k)"
  by (simp add: create_time_midpoint_eq [OF assms] getitem_setitem)

lemma likert_untouched:
  assumes "c \<in> set LIKERT_COLUMNS"
  shows "c \<noteq> ''timestamp'' \<and> c \<noteq> ''age'' \<and> c \<noteq> ''age_band''
         \<and> c \<noteq> ''gender_clean'' \<and> c \<noteq> ''gender_grouped'' \<and> c \<noteq> ''gender_raw''
         \<and> c \<noteq> ''uses_social_media'' \<and> c \<noteq> ''platform_count''
         \<and> c \<notin> platform_col ` set PLATFORMS
         \<and> c \<notin> (\<lambda>(key, vs). affil_col key) ` set AFFILIATIONS
         \<and> c \<noteq> ''daily_hours_midpoint''"
  using assms by (auto simp: LIKERT_COLUMNS_def platform_col_def affil_col_def)

lemma likert_mapped: "set LIKERT_COLUMNS \<subseteq> snd ` set COLUMN_MAPPING"
  by (simp add: LIKERT_COLUMNS_def COLUMN_MAPPING_def)

lemma likert_distinct: "distinct LIKERT_COLUMNS"
  by (simp add: LIKERT_COLUMNS_def)

lemma split_at_first:
  "c \<in> set xs \<Longrightarrow>
     xs = takeWhile (\<lambda>x. x \<noteq> c) xs @ c # tl (dropWhile (\<lambda>x. x \<noteq> c) xs)"
  by (induction xs) auto

lemma transform_age_fails:
  assumes "rename_columns raw = Inr df1" and "clean_age L (drop_timestamp df1) = Inl e"
  shows "transform_to_midpoint L raw = Inl e"
  by (simp add: transform_to_midpoint_def assms)

lemma transform_frame:
  assumes "rename_columns raw = Inr df1" and d3: "clean_age L (drop_timestamp df1) = Inr d3"
  shows "\<exists>df8 msgs. transform_to_midpoint L raw = Inr (df8, msgs)
           \<and> (\<forall>c \<in> set LIKERT_COLUMNS. getitem df8 c = getitem df1 c)"
proof -
  have m: "(''1. What is your age?'', ''age'') \<in> set COLUMN_MAPPING"
       "(''2. Gender'', ''gender_raw'') \<in> set COLUMN_MAPPING"
       "(''6. Do you use social media?'', ''uses_social_media'') \<in> set COLUMN_MAPPING"
       "(''7. What social media platforms do you commonly use?'', ''platforms_raw'')
          \<in> set COLUMN_MAPPING"
       "(''5. What type of organizations are you affiliated with?'', ''org_affiliations_raw'')
          \<in> set COLUMN_MAPPING"
       "(''8. What is the average time you spend on social media every day?'', ''daily_time_band'')
          \<in> set COLUMN_MAPPING"
    by (simp_all add: COLUMN_MAPPING_def)
  from rename_present [OF assms(1) m(2)] obtain g where g: "getitem df1 ''gender_raw'' = Inr g" ..
  from rename_present [OF assms(1) m(3)] obtain u where u: "getitem df1 ''uses_social_media'' = Inr u" ..
  from rename_present [OF assms(1) m(4)] obtain p where p: "getitem df1 ''platforms_raw'' = Inr p" ..
  from rename_present [OF assms(1) m(5)] obtain org where org: "getitem df1 ''org_affiliations_raw'' = Inr org" ..
  from rename_present [OF assms(1) m(6)] obtain t where t: "getitem df1 ''daily_time_band'' = Inr t" ..
  define d2 where "d2 = drop_timestamp df1"
  have F2: "\<And>k. k \<noteq> ''timestamp'' \<Longrightarrow> getitem d2 k = getitem df1 k"
    unfolding d2_def by (rule drop_timestamp_frame)
  have d3': "clean_age L d2 = Inr d3"
    unfolding d2_def by (rule d3)
  have F3: "\<And>k. k \<noteq> ''age'' \<and> k \<noteq> ''age_band'' \<Longrightarrow> getitem d3 k = getitem d2 k"
    by (rule clean_age_frame [OF d3'])
  have g3: "getitem d3 ''gender_raw'' = Inr g" by (simp add: F3 F2 g)
  from clean_gender_frame [OF g3, of L] obtain d4 where
    d4: "clean_gender L d3 = Inr d4"
    and F4: "\<And>k. k \<noteq> ''gender_clean'' \<and> k \<noteq> ''gender_grouped'' \<and> k \<noteq> ''gender_raw''
               \<Longrightarrow> getitem d4 k = getitem d3 k"
    by blast
  have u4: "getitem d4 ''uses_social_media'' = Inr u" by (simp add: F4 F3 F2 u)
  from clean_yes_no_frame [OF u4, of L] obtain d5 where
    d5: "clean_yes_no L d4 = Inr d5"
    and F5: "\<And>k. k \<noteq> ''uses_social_media'' \<Longrightarrow> getitem d5 k = getitem d4 k"
    by blast
  have p5: "getitem d5 ''platforms_raw'' = Inr p" by (simp add: F5 F4 F3 F2 p)
  from parse_platforms_frame [OF p5, of L] obtain d6 where
    d6: "parse_platforms L d5 = Inr d6"
    and F6: "\<And>k. k \<noteq> ''platform_count'' \<and> k \<notin> platform_col ` set PLATFORMS
               \<Longrightarrow> getitem d6 k = getitem d5 k"
    by blast
  have np: "\<And>s. hd s \<noteq> CHR ''p'' \<Longrightarrow> s \<notin> platform_col ` set PLATFORMS"
    by (auto simp: platform_col_def)
  have na: "\<And>s. hd s \<noteq> CHR ''a'' \<Longrightarrow> s \<notin> (\<lambda>(key, vs). affil_col key) ` set AFFILIATIONS"
    by (auto simp: affil_col_def)
  have o6: "getitem d6 ''org_affiliations_raw'' = Inr org" by (simp add: F6 np F5 F4 F3 F2 org)
  from parse_affiliations_frame [OF o6, of L] obtain d7 where
    d7: "parse_affiliations L d6 = Inr d7"
    and F7: "\<And>k. k \<notin> (\<lambda>(key, vs). affil_col key) ` set AFFILIATIONS
               \<Longrightarrow> getitem d7 k = getitem d6 k"
    by blast
  have t7: "getitem d7 ''daily_time_band'' = Inr t" by (simp add: F7 na F6 np F5 F4 F3 F2 t)
  from create_time_midpoint_frame [OF t7] obtain d8 msgs where
    d8: "create_time_midpoint d7 = Inr (d8, msgs)"
    and F8: "\<And>k. k \<noteq> ''daily_hours_midpoint'' \<Longrightarrow> getitem d8 k = getitem d7 k"
    by blast
  have run: "transform_to_midpoint L raw = Inr (d8, msgs)"
    by (simp add: transform_to_midpoint_def assms(1) d2_def [symmetric] d3' d4 d5 d6 d7 d8)
  have likert: "\<forall>c \<in> set LIKERT_COLUMNS. getitem d8 c = getitem df1 c"
  proof
    fix c assume "c \<in> set LIKERT_COLUMNS"
    from likert_untouched [OF this] show "getitem d8 c = getitem df1 c"
      by (simp add: F8 F7 F6 F5 F4 F3 F2)
  qed
  from run likert show ?thesis by blast
qed

lemma rename_age:
  assumes "rename_columns raw = Inr df1"
  shows "\<exists>a. getitem df1 ''age'' = Inr a \<and> getitem (drop_timestamp df1) ''age'' = Inr a"
proof -
  have "(''1. What is your age?'', ''age'') \<in> set COLUMN_MAPPING"
    by (simp add: COLUMN_MAPPING_def)
  from rename_present [OF assms this] obtain a where "getitem df1 ''age'' = Inr a" ..
  then show ?thesis by (simp add: drop_timestamp_frame)
qed

lemma out_of_range_iff:
  "out_of_range L col \<longleftrightarrow>
     (\<exists>v \<in> set (present (map (to_numeric L) col)). v < Fin 1 \<or> Fin 5 < v)"
  by (simp add: out_of_range_def list_ex_iff)

lemma whole_in_range_iff:
  "whole_in_range L col \<longleftrightarrow> (\<forall>v \<in> set (present (map (to_numeric L) col)). is_likert v)"
  by (simp add: whole_in_range_def list_all_iff)

lemma run_etl_early:
  assumes "files w raw_path = Some (CsvFile raw)"
    and "transform_to_midpoint L raw = Inl e"
  shows "run_etl L w raw_path processed_path dict_path report_path = (Inl e, w)"
  by (simp add: run_etl_def load_raw_data_def assms)

lemma run_etl_failure:
  assumes "files w raw_path = Some (CsvFile raw)"
    and "transform_to_midpoint L raw = Inr (df8, msgs)"
    and "validate_likert_scales L df8 = Inl e"
  shows "run_etl L w raw_path processed_path dict_path report_path
           = (Inl e, w\<lparr>printed := printed w @ msgs\<rparr>)"
  by (simp add: run_etl_def load_raw_data_def assms transform_from_likert_def)

text \<open>
  Claim C1, amended. Let the raw file exist and hold a table with all expected columns,
  and let \<open>df1\<close> be the table after renaming, with no column name twice. If a Likert
  column of \<open>df1\<close> has a present value below 1 or above 5, the run ends with an error
  and the files are as they were before the run. If, moreover, the steps before the
  validation complete, for which it is enough that \<open>clean_age\<close> can store the ages, and
  every Likert column before this one (in the order of \<open>LIKERT_COLUMNS\<close>) holds only
  whole numbers from 1 to 5 or missing values, the error is the range error that names
  this column. Missing values are exempt: if every present Likert value is a whole
  number from 1 to 5 and \<open>clean_age\<close> can store the ages, the validation passes and each
  Likert column is its numeric conversion, a missing value staying missing.
\<close>

theorem C1_likert_range_amended:
  assumes exists: "files w raw_path = Some (CsvFile raw)"
    and schema: "rename_columns raw = Inr df1"
    and names: "distinct (columns df1)"
  shows
   "(\<forall>c col. c \<in> set LIKERT_COLUMNS \<and> getitem df1 c = Inr col \<and> out_of_range L col \<longrightarrow>
        (\<exists>e w'. run_etl L w raw_path processed_path dict_path report_path = (Inl e, w')
                \<and> files w' = files w)
      \<and> ((\<forall>a. getitem df1 ''age'' = Inr a \<longrightarrow> ages_castable L a)
          \<and> (\<forall>c' \<in> set (takeWhile (\<lambda>x. x \<noteq> c) LIKERT_COLUMNS).
                \<forall>col'. getitem df1 c' = Inr col' \<longrightarrow> whole_in_range L col') \<longrightarrow>
           (\<exists>m w'. run_etl L w raw_path processed_path dict_path report_path
                      = (Inl (LikertBelow c m), w') \<and> m < Fin 1)
         \<or> (\<exists>m w'. run_etl L w raw_path processed_path dict_path report_path
                      = (Inl (LikertAbove c m), w') \<and> Fin 5 < m)))
    \<and> ((\<forall>a. getitem df1 ''age'' = Inr a \<longrightarrow> ages_castable L a)
        \<and> (\<forall>c \<in> set LIKERT_COLUMNS. \<forall>col. getitem df1 c = Inr col \<longrightarrow> whole_in_range L col) \<longrightarrow>
         (\<exists>df8 msgs df9.
            transform_to_midpoint L raw = Inr (df8, msgs)
            \<and> validate_likert_scales L df8 = Inr df9
            \<and> (\<forall>c \<in> set LIKERT_COLUMNS. \<forall>col. getitem df1 c = Inr col \<longrightarrow>
                  getitem df9 c = Inr (map float_cell (map (to_numeric L) col)))))"
proof -
  from rename_age [OF schema] obtain a where
    a: "getitem df1 ''age'' = Inr a" "getitem (drop_timestamp df1) ''age'' = Inr a"
    by blast
  have T: "\<exists>df8 msgs. transform_to_midpoint L raw = Inr (df8, msgs)
             \<and> (\<forall>c \<in> set LIKERT_COLUMNS. getitem df8 c = getitem df1 c)"
    if "\<forall>a. getitem df1 ''age'' = Inr a \<longrightarrow> ages_castable L a"
  proof -
    from that a(1) have "ages_castable L a" by blast
    from clean_age_ok [OF a(2) this] obtain d3 where
      "clean_age L (drop_timestamp df1) = Inr d3" ..
    from transform_frame [OF schema this] show ?thesis .
  qed
  have present: "\<exists>col. getitem df1 c = Inr col" if "c \<in> set LIKERT_COLUMNS" for c
  proof -
    from that likert_mapped obtain k where "(k, c) \<in> set COLUMN_MAPPING" by force
    from rename_present [OF schema this] show ?thesis .
  qed
  have abort: "\<exists>e w'. run_etl L w raw_path processed_path dict_path report_path = (Inl e, w')
                \<and> files w' = files w"
    if c: "c \<in> set LIKERT_COLUMNS" and col: "getitem df1 c = Inr col" and bad: "out_of_range L col"
    for c col
  proof (cases "clean_age L (drop_timestamp df1)")
    case (Inl e)
    from transform_age_fails [OF schema Inl] have "transform_to_midpoint L raw = Inl e" .
    from run_etl_early [OF exists this] show ?thesis by simp
  next
    case (Inr d3)
    from transform_frame [OF schema Inr] obtain df8 msgs where
      T: "transform_to_midpoint L raw = Inr (df8, msgs)"
      and F: "\<forall>c \<in> set LIKERT_COLUMNS. getitem df8 c = getitem df1 c"
      by blast
    from F c col have col8: "getitem df8 c = Inr col" by simp
    from bad have bad': "\<exists>v \<in> set (present (map (to_numeric L) col)). v < Fin 1 \<or> Fin 5 < v"
      by (simp only: out_of_range_iff)
    from validate_loop_fails [OF c col8 bad'] obtain e where
      "validate_likert_scales L df8 = Inl e"
      unfolding validate_likert_scales_def ..
    from run_etl_failure [OF exists T this] show ?thesis by simp
  qed
  have named: "(\<exists>m w'. run_etl L w raw_path processed_path dict_path report_path
                      = (Inl (LikertBelow c m), w') \<and> m < Fin 1)
         \<or> (\<exists>m w'. run_etl L w raw_path processed_path dict_path report_path
                      = (Inl (LikertAbove c m), w') \<and> Fin 5 < m)"
    if c: "c \<in> set LIKERT_COLUMNS" and col: "getitem df1 c = Inr col" and bad: "out_of_range L col"
      and ages: "\<forall>a. getitem df1 ''age'' = Inr a \<longrightarrow> ages_castable L a"
      and first: "\<forall>c' \<in> set (takeWhile (\<lambda>x. x \<noteq> c) LIKERT_COLUMNS).
             \<forall>col'. getitem df1 c' = Inr col' \<longrightarrow> whole_in_range L col'"
    for c col
  proof -
    from T [OF ages] obtain df8 msgs where
      T: "transform_to_midpoint L raw = Inr (df8, msgs)"
      and F: "\<forall>c \<in> set LIKERT_COLUMNS. getitem df8 c = getitem df1 c"
      by blast
    from F c col have col8: "getitem df8 c = Inr col" by simp
    from bad have bad': "\<exists>v \<in> set (present (map (to_numeric L) col)). v < Fin 1 \<or> Fin 5 < v"
      by (simp only: out_of_range_iff)
    define pre where "pre = takeWhile (\<lambda>x. x \<noteq> c) LIKERT_COLUMNS"
    define post where "post = tl (dropWhile (\<lambda>x. x \<noteq> c) LIKERT_COLUMNS)"
    have split: "LIKERT_COLUMNS = pre @ c # post"
      unfolding pre_def post_def by (rule split_at_first [OF c])
    have sub: "set pre \<subseteq> set LIKERT_COLUMNS"
      unfolding pre_def by (auto dest: set_takeWhileD)
    have dist: "distinct (pre @ [c])"
      using likert_distinct unfolding split by simp
    have clean: "\<forall>c' \<in> set pre. \<exists>col'. getitem df8 c' = Inr col'
           \<and> (\<forall>v \<in> set (present (map (to_numeric L) col')). is_likert v)"
    proof
      fix c' assume c': "c' \<in> set pre"
      with sub have l: "c' \<in> set LIKERT_COLUMNS" by blast
      from present [OF l] obtain col' where col': "getitem df1 c' = Inr col'" ..
      with first c' have "whole_in_range L col'" unfolding pre_def by blast
      with col' F l
      show "\<exists>col'. getitem df8 c' = Inr col'
           \<and> (\<forall>v \<in> set (present (map (to_numeric L) col')). is_likert v)"
        by (auto simp: whole_in_range_iff)
    qed
    from validate_loop_first [OF dist clean col8 bad', of post]
    have "(\<exists>m. validate_likert_scales L df8 = Inl (LikertBelow c m) \<and> m < Fin 1)
       \<or> (\<exists>m. validate_likert_scales L df8 = Inl (LikertAbove c m) \<and> Fin 5 < m)"
      unfolding validate_likert_scales_def split .
    then show ?thesis
      using run_etl_failure [OF exists T] by blast
  qed
  have exempt: "\<exists>df8 msgs df9.
            transform_to_midpoint L raw = Inr (df8, msgs)
            \<and> validate_likert_scales L df8 = Inr df9
            \<and> (\<forall>c \<in> set LIKERT_COLUMNS. \<forall>col. getitem df1 c = Inr col \<longrightarrow>
                  getitem df9 c = Inr (map float_cell (map (to_numeric L) col)))"
    if ages: "\<forall>a. getitem df1 ''age'' = Inr a \<longrightarrow> ages_castable L a"
      and all: "\<forall>c \<in> set LIKERT_COLUMNS. \<forall>col. getitem df1 c = Inr col \<longrightarrow> whole_in_range L col"
  proof -
    from T [OF ages] obtain df8 msgs where
      T: "transform_to_midpoint L raw = Inr (df8, msgs)"
      and F: "\<forall>c \<in> set LIKERT_COLUMNS. getitem df8 c = getitem df1 c"
      by blast
    have clean: "\<forall>c' \<in> set LIKERT_COLUMNS. \<exists>col'. getitem df8 c' = Inr col'
           \<and> (\<forall>v \<in> set (present (map (to_numeric L) col')). is_likert v)"
    proof
      fix c' assume l: "c' \<in> set LIKERT_COLUMNS"
      from present [OF l] obtain col' where col': "getitem df1 c' = Inr col'" ..
      with all l have "whole_in_range L col'" by blast
      with col' F l
      show "\<exists>col'. getitem df8 c' = Inr col'
           \<and> (\<forall>v \<in> set (present (map (to_numeric L) col')). is_likert v)"
        by (auto simp: whole_in_range_iff)
    qed
    from validate_loop_ok [OF likert_distinct clean] obtain df9 where
      v: "validate_likert_scales L df8 = Inr df9"
      and conv: "\<forall>c \<in> set LIKERT_COLUMNS. \<forall>col. getitem df8 c = Inr col \<longrightarrow>
                  getitem df9 c = Inr (map float_cell (map (to_numeric L) col))"
      unfolding validate_likert_scales_def by (elim exE conjE)
    from conv F have "\<forall>c \<in> set LIKERT_COLUMNS. \<forall>col. getitem df1 c = Inr col \<longrightarrow>
                  getitem df9 c = Inr (map float_cell (map (to_numeric L) col))"
      by simp
    with T v show ?thesis by blast
  qed
  show ?thesis
  proof (intro conjI allI impI)
    fix c col
    assume h: "c \<in> set LIKERT_COLUMNS \<and> getitem df1 c = Inr col \<and> out_of_range L col"
    then show "\<exists>e w'. run_etl L w raw_path processed_path dict_path report_path = (Inl e, w')
                \<and> files w' = files w"
      using abort by blast
    assume "(\<forall>a. getitem df1 ''age'' = Inr a \<longrightarrow> ages_castable L a)
          \<and> (\<forall>c' \<in> set (takeWhile (\<lambda>x. x \<noteq> c) LIKERT_COLUMNS).
                \<forall>col'. getitem df1 c' = Inr col' \<longrightarrow> whole_in_range L col')"
    with h show "(\<exists>m w'. run_etl L w raw_path processed_path dict_path report_path
                      = (Inl (LikertBelow c m), w') \<and> m < Fin 1)
         \<or> (\<exists>m w'. run_etl L w raw_path processed_path dict_path report_path
                      = (Inl (LikertAbove c m), w') \<and> Fin 5 < m)"
      using named [of c col] by blast
  next
    assume "(\<forall>a. getitem df1 ''age'' = Inr a \<longrightarrow> ages_castable L a)
        \<and> (\<forall>c \<in> set LIKERT_COLUMNS. \<forall>col. getitem df1 c = Inr col \<longrightarrow> whole_in_range L col)"
    then show "\<exists>df8 msgs df9.
            transform_to_midpoint L raw = Inr (df8, msgs)
            \<and> validate_likert_scales L df8 = Inr df9
            \<and> (\<forall>c \<in> set LIKERT_COLUMNS. \<forall>col. getitem df1 c = Inr col \<longrightarrow>
                  getitem df9 c = Inr (map float_cell (map (to_numeric L) col)))"
      using exempt by blast
  qed
qed

text \<open>
  Claim C1 as it is stated fails on the one-row table whose first Likert answer is 3.5 and
  whose last is 6: the first column passes the range check and its conversion to whole
  numbers raises the cast error, before the column with the 6 is looked at.
\<close>

theorem C1_likert_range_counterexample:
  "getitem (example_raw_table (Num (7/2)) (Num 6))
     ''20. On a scale of 1 to 5, how often do you face issues regarding sleep?'' = Inr [Num 6]
   \<and> fst (run_etl example_pylib (example_world (Num (7/2)) (Num 6)) ''data/raw/v1/smmh.csv''
            ''data/processed/v1/smmh_clean.csv'' ''docs/data_dictionary.md''
            ''reports/etl_report.md'') = Inl CannotSafelyCast"
  by code_simp

text \<open>
  The amended C1 on the one-row table with the last Likert answer 6, and on the table
  whose first Likert answer is a text that is no number and whose last is missing.
\<close>

theorem C1_likert_range_amended_witness:
  "(\<exists>e w'. run_etl example_pylib (example_world (Num 3) (Num 6)) ''data/raw/v1/smmh.csv''
              ''data/processed/v1/smmh_clean.csv'' ''docs/data_dictionary.md''
              ''reports/etl_report.md'' = (Inl e, w')
           \<and> files w' = files (example_world (Num 3) (Num 6))
           \<and> (\<exists>m. e = LikertBelow ''sleep_issues'' m \<or> e = LikertAbove ''sleep_issues'' m))
   \<and> (\<exists>df8 msgs df9.
         transform_to_midpoint example_pylib (example_raw_table (Str ''abc'') NA) = Inr (df8, msgs)
         \<and> validate_likert_scales example_pylib df8 = Inr df9
         \<and> getitem df9 ''purposeless_use'' = Inr [NA]
         \<and> getitem df9 ''sleep_issues'' = Inr [NA])"
proof (rule conjI)
  define df1 where "df1 = map2 (\<lambda>(k, k') c. (k', [c])) COLUMN_MAPPING (example_raw_row (Num 3) (Num 6))"
  have ex: "files (example_world (Num 3) (Num 6)) ''data/raw/v1/smmh.csv'' = Some (CsvFile (example_raw_table (Num 3) (Num 6)))"
    by (simp add: example_world_def)
  have schema: "rename_columns (example_raw_table (Num 3) (Num 6)) = Inr df1"
    unfolding df1_def by code_simp
  have names: "distinct (columns df1)"
    unfolding df1_def by code_simp
  have c: "''sleep_issues'' \<in> set LIKERT_COLUMNS"
    by (simp add: LIKERT_COLUMNS_def)
  have col: "getitem df1 ''sleep_issues'' = Inr [Num 6]"
    unfolding df1_def by code_simp
  have bad: "out_of_range example_pylib [Num 6]"
    by code_simp
  have "case getitem df1 ''age'' of Inl e \<Rightarrow> True | Inr a \<Rightarrow> ages_castable example_pylib a"
    unfolding df1_def by code_simp
  then have ages: "\<forall>a. getitem df1 ''age'' = Inr a \<longrightarrow> ages_castable example_pylib a"
    by (auto split: sum.splits)
  have "\<forall>c' \<in> set (takeWhile (\<lambda>x. x \<noteq> ''sleep_issues'') LIKERT_COLUMNS).
           case getitem df1 c' of Inl e \<Rightarrow> True | Inr col' \<Rightarrow> whole_in_range example_pylib col'"
    unfolding df1_def by code_simp
  then have first: "\<forall>c' \<in> set (takeWhile (\<lambda>x. x \<noteq> ''sleep_issues'') LIKERT_COLUMNS).
             \<forall>col'. getitem df1 c' = Inr col' \<longrightarrow> whole_in_range example_pylib col'"
    by (auto split: sum.splits)
  note T = C1_likert_range_amended [OF ex schema names, of example_pylib
      "''data/processed/v1/smmh_clean.csv''" "''docs/data_dictionary.md''" "''reports/etl_report.md''",
      THEN conjunct1, THEN spec, THEN spec, THEN mp, OF conjI [OF c conjI [OF col bad]]]
  from T [THEN conjunct1] obtain e w' where
    r: "run_etl example_pylib (example_world (Num 3) (Num 6)) ''data/raw/v1/smmh.csv''
              ''data/processed/v1/smmh_clean.csv'' ''docs/data_dictionary.md''
              ''reports/etl_report.md'' = (Inl e, w')" "files w' = files (example_world (Num 3) (Num 6))"
    by (elim exE conjE)
  from T [THEN conjunct2, THEN mp, OF conjI [OF ages first]] r(1)
  have "\<exists>m. e = LikertBelow ''sleep_issues'' m \<or> e = LikertAbove ''sleep_issues'' m"
    by auto
  with r show "\<exists>e w'. run_etl example_pylib (example_world (Num 3) (Num 6)) ''data/raw/v1/smmh.csv''
              ''data/processed/v1/smmh_clean.csv'' ''docs/data_dictionary.md''
              ''reports/etl_report.md'' = (Inl e, w')
           \<and> files w' = files (example_world (Num 3) (Num 6))
           \<and> (\<exists>m. e = LikertBelow ''sleep_issues'' m \<or> e = LikertAbove ''sleep_issues'' m)"
    by (intro exI [of _ e] exI [of _ w'] conjI)
next
  define df1 where "df1 = map2 (\<lambda>(k, k') c. (k', [c])) COLUMN_MAPPING (example_raw_row (Str ''abc'') NA)"
  define w where "w = example_world (Str ''abc'') NA"
  have ex: "files w ''data/raw/v1/smmh.csv'' = Some (CsvFile (example_raw_table (Str ''abc'') NA))"
    by (simp add: example_world_def w_def)
  have schema: "rename_columns (example_raw_table (Str ''abc'') NA) = Inr df1"
    unfolding df1_def by code_simp
  have names: "distinct (columns df1)"
    unfolding df1_def by code_simp
  have c: "''sleep_issues'' \<in> set LIKERT_COLUMNS" "''purposeless_use'' \<in> set LIKERT_COLUMNS"
    by (simp_all add: LIKERT_COLUMNS_def)
  have col: "getitem df1 ''sleep_issues'' = Inr [NA]"
    "getitem df1 ''purposeless_use'' = Inr [Str ''abc'']"
    unfolding df1_def by code_simp+
  have "case getitem df1 ''age'' of Inl e \<Rightarrow> True | Inr a \<Rightarrow> ages_castable example_pylib a"
    unfolding df1_def by code_simp
  then have ages: "\<forall>a. getitem df1 ''age'' = Inr a \<longrightarrow> ages_castable example_pylib a"
    by (auto split: sum.splits)
  have "\<forall>c \<in> set LIKERT_COLUMNS.
           case getitem df1 c of Inl e \<Rightarrow> True | Inr col \<Rightarrow> whole_in_range example_pylib col"
    unfolding df1_def by code_simp
  then have all: "\<forall>c \<in> set LIKERT_COLUMNS. \<forall>col. getitem df1 c = Inr col
                     \<longrightarrow> whole_in_range example_pylib col"
    by (auto split: sum.splits)
  from C1_likert_range_amended [OF ex schema names, of example_pylib
      "''data/processed/v1/smmh_clean.csv''" "''docs/data_dictionary.md''" "''reports/etl_report.md''",
      THEN conjunct2, THEN mp, OF conjI [OF ages all]]
  obtain df8 msgs df9 where
    r: "transform_to_midpoint example_pylib (example_raw_table (Str ''abc'') NA) = Inr (df8, msgs)"
       "validate_likert_scales example_pylib df8 = Inr df9"
    and conv: "\<forall>c \<in> set LIKERT_COLUMNS. \<forall>col. getitem df1 c = Inr col \<longrightarrow>
                  getitem df9 c = Inr (map float_cell (map (to_numeric example_pylib) col))"
    by (elim exE conjE)
  from conv c col have "getitem df9 ''sleep_issues''
      = Inr (map float_cell (map (to_numeric example_pylib) [NA]))"
    "getitem df9 ''purposeless_use''
      = Inr (map float_cell (map (to_numeric example_pylib) [Str ''abc'']))"
    by blast+
  then have "getitem df9 ''sleep_issues'' = Inr [NA]" "getitem df9 ''purposeless_use'' = Inr [NA]"
    by (simp_all add: to_numeric_def float_cell_def example_pylib_def)
  with r show "\<exists>df8 msgs df9.
         transform_to_midpoint example_pylib (example_raw_table (Str ''abc'') NA) = Inr (df8, msgs)
         \<and> validate_likert_scales example_pylib df8 = Inr df9
         \<and> getitem df9 ''purposeless_use'' = Inr [NA]
         \<and> getitem df9 ''sleep_issues'' = Inr [NA]"
    by (intro exI [of _ df8] exI [of _ msgs] exI [of _ df9] conjI)
qed

text \<open>
  On a table with all expected columns and no rows the validation passes, the cleaned
  table and the data dictionary are written, and the run then ends in
  \<open>generate_etl_report\<close> with the division by zero.
\<close>

lemma run_etl_no_rows:
  "(case run_etl example_pylib
           \<lparr>files = [''data/raw/v1/smmh.csv'' \<mapsto> CsvFile (map (\<lambda>(k, k'). (k, [])) COLUMN_MAPPING)],
            printed = []\<rparr>
           ''data/raw/v1/smmh.csv'' ''data/processed/v1/smmh_clean.csv''
           ''docs/data_dictionary.md'' ''reports/etl_report.md'' of
      (r, w') \<Rightarrow> r = Inl ZeroDivisionError
        \<and> files w' ''data/processed/v1/smmh_clean.csv'' \<noteq> None
        \<and> files w' ''docs/data_dictionary.md'' \<noteq> None
        \<and> files w' ''reports/etl_report.md'' = None)"
  by code_simp

end
